theory Spec2Isabelle
  imports Complex_Main
begin

section \<open>Python values handled by the SupervisedLearning base class\<close>

text \<open>
  The values of a training or evaluation dictionary, as far as
  \<^verbatim>\<open>SupervisedLearning.py\<close> inspects them. A numpy array is its shape and its
  elements in row-major order; \<open>C1dArray\<close> is the framework's own one-dimensional
  array class, which the validator accepts by name next to \<^verbatim>\<open>ndarray\<close>.
  \<open>PyFloat\<close> is a plain Python number. A dictionary keeps its items in
  insertion order. \<open>PyOther n\<close> is an object
  of any other class, \<open>n\<close> being the \<^verbatim>\<open>__name__\<close> of that class.
  Floating-point numbers are idealised as reals.
\<close>

datatype pyval =
    PyNone
  | PyList "pyval list"
  | NdArray "nat list" "real list"
  | C1dArray "real list"
  | PyFloat real
  | PyDict "(string \<times> pyval) list"
  | PyOther string

text \<open>
  Exceptions. \<open>raiseAnError(E, msg)\<close> of the message handler raises \<open>E(msg)\<close>;
  for these the string is the message of the source. For the exceptions the
  interpreter or numpy raise, the string is the offending name or a short
  description. \<open>BackendError\<close> is any exception that is raised inside a
  collaborator of the class (a backend hook, the feature selection, the
  normalization factors), whatever its Python class; the class catches none
  of them, so they pass through unchanged.
\<close>

datatype exn = TypeError | IOError | ValueError | IndexError | AttributeError | KeyError
  | BackendError

type_synonym error = "exn \<times> string"

subsection \<open>Printing\<close>

definition digit_char :: "nat \<Rightarrow> char" where
  "digit_char n = ''0123456789'' ! n"

function str_nat :: "nat \<Rightarrow> string" where
  "str_nat n = (if n < 10 then [digit_char n]
                else str_nat (n div 10) @ [digit_char (n mod 10)])"
  by pat_completeness auto
termination
  by (relation "measure id") auto

declare str_nat.simps [simp del]

fun join :: "string \<Rightarrow> string list \<Rightarrow> string" where
  "join sep [] = []"
| "join sep [x] = x"
| "join sep (x # y # ys) = x @ sep @ join sep (y # ys)"

text \<open>\<^verbatim>\<open>str\<close> of a shape tuple: \<^verbatim>\<open>()\<close>, \<^verbatim>\<open>(3,)\<close>, \<^verbatim>\<open>(2, 3)\<close>.\<close>

definition str_shape :: "nat list \<Rightarrow> string" where
  "str_shape sh =
     (case sh of
        [] \<Rightarrow> ''()''
      | [n] \<Rightarrow> ''('' @ str_nat n @ '',)''
      | _ \<Rightarrow> ''('' @ join '', '' (map str_nat sh) @ '')'')"

text \<open>\<^verbatim>\<open>type(v).__name__\<close>\<close>

fun type_name :: "pyval \<Rightarrow> string" where
  "type_name PyNone = ''NoneType''"
| "type_name (PyList xs) = ''list''"
| "type_name (NdArray sh d) = ''ndarray''"
| "type_name (C1dArray d) = ''c1darray''"
| "type_name (PyFloat x) = ''float''"
| "type_name (PyDict kvs) = ''dict''"
| "type_name (PyOther n) = n"

text \<open>\<^verbatim>\<open>np.asarray(v).shape\<close> for the two array classes.\<close>

fun array_shape :: "pyval \<Rightarrow> nat list" where
  "array_shape (NdArray sh d) = sh"
| "array_shape (C1dArray d) = [length d]"
| "array_shape v = []"

section \<open>The array validator\<close>

text \<open>
  \<^verbatim>\<open>checkArrayConsistency(arrayIn, isDynamic=False)\<close>. The loop over the
  elements of a list calls the validator with the default
  \<^verbatim>\<open>isDynamic=False\<close> and returns at the first element that fails;
  \<open>checkElements\<close> is that loop, \<open>cnt\<close> the index of \<^verbatim>\<open>enumerate\<close>.
\<close>

fun checkArrayConsistency :: "pyval \<Rightarrow> bool \<Rightarrow> bool \<times> string"
  and checkElements :: "nat \<Rightarrow> pyval list \<Rightarrow> bool \<times> string" where
  "checkArrayConsistency arrayIn isDynamic =
     (case arrayIn of
        PyNone \<Rightarrow> (False, '' The object is None, and contains no entries!'')
      | PyList xs \<Rightarrow>
          (if isDynamic then checkElements 0 xs
           else (False, '' The list type is allowed for dynamic ROMs only''))
      | _ \<Rightarrow>
          (if type_name arrayIn \<notin> {''ndarray'', ''c1darray''}
           then (False, '' The object is not a numpy array. Got type: '' @ type_name arrayIn)
           else if length (array_shape arrayIn) > 1
           then (False, '' The array must be 1-d. Got shape: '' @ str_shape (array_shape arrayIn))
           else (True, '''')))"
| "checkElements cnt [] = (True, '''')"
| "checkElements cnt (elementArray # rest) =
     (let resp = checkArrayConsistency elementArray False in
      if \<not> fst resp
      then (False, '' The element number '' @ str_nat cnt
                   @ '' is not a consistent array. Error: '' @ snd resp)
      else checkElements (Suc cnt) rest)"

declare checkArrayConsistency.simps [simp del]

lemmas checkArrayConsistency_unfold = checkArrayConsistency.simps(1)

section \<open>The numpy operations the class uses\<close>

text \<open>
  An array is its shape and its elements in row-major order. Arrays of Python
  objects (dtype \<^verbatim>\<open>object\<close>) are not modelled: converting \<^verbatim>\<open>None\<close>, a
  dictionary or an object of another class is an error here, and so is a list
  whose elements differ in shape, as in numpy from 1.24 on (older versions
  build a one-dimensional array of objects, on which the two-dimensional
  slices of \<^verbatim>\<open>train\<close> raise \<^verbatim>\<open>IndexError\<close>).
\<close>

type_synonym ndarray = "nat list \<times> real list"

text \<open>The first error of a list of results, or all the values.\<close>

fun sequence :: "(error + 'a) list \<Rightarrow> error + 'a list" where
  "sequence [] = Inr []"
| "sequence (Inl e # rs) = Inl e"
| "sequence (Inr x # rs) = (case sequence rs of Inl e \<Rightarrow> Inl e | Inr xs \<Rightarrow> Inr (x # xs))"

definition same_shape :: "ndarray list \<Rightarrow> bool" where
  "same_shape arrs = (\<forall>a \<in> set arrs. fst a = fst (hd arrs))"

text \<open>\<^verbatim>\<open>np.asarray(v)\<close>\<close>

fun asarray :: "pyval \<Rightarrow> error + ndarray" where
  "asarray (NdArray sh d) = Inr (sh, d)"
| "asarray (C1dArray d) = Inr ([length d], d)"
| "asarray (PyFloat x) = Inr ([], [x])"
| "asarray (PyList xs) =
     (case sequence (map asarray xs) of
        Inl e \<Rightarrow> Inl e
      | Inr arrs \<Rightarrow>
          (if arrs = [] then Inr ([0], [])
           else if same_shape arrs
           then Inr (length arrs # fst (hd arrs), concat (map snd arrs))
           else Inl (ValueError, ''inhomogeneous shape'')))"
| "asarray v = Inl (TypeError, ''object array'')"

text \<open>\<^verbatim>\<open>np.stack(vs, axis=-1)\<close>: the arrays side by side along a new last axis.\<close>

definition stack_last :: "pyval list \<Rightarrow> error + ndarray" where
  "stack_last vs =
     (if vs = [] then Inl (ValueError, ''need at least one array to stack'')
      else case sequence (map asarray vs) of
        Inl e \<Rightarrow> Inl e
      | Inr arrs \<Rightarrow>
          (if same_shape arrs
           then Inr (fst (hd arrs) @ [length arrs], concat (transpose (map snd arrs)))
           else Inl (ValueError, ''all input arrays must have the same shape'')))"

text \<open>\<^verbatim>\<open>len(a)\<close> of an array\<close>

definition np_len :: "ndarray \<Rightarrow> error + nat" where
  "np_len a = (case fst a of [] \<Rightarrow> Inl (TypeError, ''len() of unsized object'') | n # sh \<Rightarrow> Inr n)"

text \<open>\<^verbatim>\<open>np.zeros(shape=sh)\<close>\<close>

definition zeros :: "nat list \<Rightarrow> ndarray" where
  "zeros sh = (sh, replicate (prod_list sh) 0)"

text \<open>\<^verbatim>\<open>v[0]\<close> on a value of the dictionary\<close>

fun subscript0 :: "pyval \<Rightarrow> error + pyval" where
  "subscript0 (PyList []) = Inl (IndexError, ''list index out of range'')"
| "subscript0 (PyList (x # xs)) = Inr x"
| "subscript0 (NdArray [] d) = Inl (IndexError, ''too many indices for array'')"
| "subscript0 (NdArray (n # sh) d) =
     (if n = 0 then Inl (IndexError, ''index 0 is out of bounds'')
      else Inr (NdArray sh (take (prod_list sh) d)))"
| "subscript0 (C1dArray d) =
     (if d = [] then Inl (IndexError, ''index 0 is out of bounds'')
      else Inr (NdArray [] [hd d]))"
| "subscript0 (PyDict kvs) = Inl (KeyError, ''0'')"
| "subscript0 v = Inl (TypeError, ''not subscriptable'')"

text \<open>\<^verbatim>\<open>v.size\<close> and \<^verbatim>\<open>v.shape[-1]\<close>\<close>

fun size_attr :: "pyval \<Rightarrow> error + nat" where
  "size_attr (NdArray sh d) = Inr (prod_list sh)"
| "size_attr (C1dArray d) = Inr (length d)"
| "size_attr v = Inl (AttributeError, ''size'')"

fun shape_last :: "pyval \<Rightarrow> error + nat" where
  "shape_last (NdArray sh d) =
     (if sh = [] then Inl (IndexError, ''tuple index out of range'') else Inr (last sh))"
| "shape_last (C1dArray d) = Inr (length d)"
| "shape_last v = Inl (AttributeError, ''shape'')"

text \<open>\<^verbatim>\<open>a[:, :]\<close>, \<^verbatim>\<open>a[:, 0]\<close> and \<^verbatim>\<open>a[:]\<close>\<close>

definition slice_all2 :: "ndarray \<Rightarrow> error + ndarray" where
  "slice_all2 a =
     (if length (fst a) < 2 then Inl (IndexError, ''too many indices for array'') else Inr a)"

definition chunks :: "nat \<Rightarrow> nat \<Rightarrow> 'a list \<Rightarrow> 'a list list" where
  "chunks m k d = map (\<lambda>i. take m (drop (i * m) d)) [0..<k]"

definition column0 :: "ndarray \<Rightarrow> error + ndarray" where
  "column0 a =
     (case fst a of
        n # m # sh \<Rightarrow>
          (if m = 0 then Inl (IndexError, ''index 0 is out of bounds'')
           else Inr (n # sh, concat (map (take (prod_list sh)) (chunks (m * prod_list sh) n (snd a)))))
      | _ \<Rightarrow> Inl (IndexError, ''too many indices for array''))"

definition slice_all1 :: "ndarray \<Rightarrow> error + ndarray" where
  "slice_all1 a =
     (if fst a = [] then Inl (IndexError, ''too many indices for array'') else Inr a)"

text \<open>\<^verbatim>\<open>(a - mu) / sigma\<close> with scalar \<open>mu\<close> and \<open>sigma\<close>, element by element.\<close>

definition normalize :: "ndarray \<Rightarrow> real \<times> real \<Rightarrow> ndarray" where
  "normalize a ms = (fst a, map (\<lambda>x. (x - fst ms) / snd ms) (snd a))"

text \<open>
  Broadcasting the elements \<open>d\<close> of an array of shape \<open>src\<close> to the shape
  \<open>tgt\<close>: the shapes are aligned at their last axes, and an axis of the source
  has the length of the target's axis or length one.
\<close>

fun bcast :: "nat list \<Rightarrow> nat list \<Rightarrow> real list \<Rightarrow> real list option" where
  "bcast [] [] d = Some d"
| "bcast [] (s # ss) d = None"
| "bcast (t # ts) src d =
     (if length src \<le> length ts
      then map_option (\<lambda>r. concat (replicate t r)) (bcast ts src d)
      else (case src of
              [] \<Rightarrow> None
            | s # ss \<Rightarrow>
                (if s = t
                 then map_option concat (those (map (bcast ts ss) (chunks (prod_list ss) s d)))
                 else if s = 1
                 then map_option (\<lambda>r. concat (replicate t r)) (bcast ts ss d)
                 else None)))"

text \<open>In an assignment, leading axes of length one of the value are dropped first.\<close>

fun strip_ones :: "nat \<Rightarrow> nat list \<Rightarrow> nat list" where
  "strip_ones k (s # ss) = (if k < length (s # ss) \<and> s = 1 then strip_ones k ss else s # ss)"
| "strip_ones k [] = []"

text \<open>
  \<^verbatim>\<open>featureValues[:, cnt] = a\<close> and \<^verbatim>\<open>featureValues[:, :, cnt] = a\<close>: the
  value is broadcast to the shape without the last axis and written at
  position \<open>cnt\<close> of the last axis.
\<close>

definition assign_last :: "nat \<Rightarrow> ndarray \<Rightarrow> ndarray \<Rightarrow> error + ndarray" where
  "assign_last cnt fv a =
     (let tgt = butlast (fst fv); nF = last (fst fv) in
      case bcast tgt (strip_ones (length tgt) (fst a)) (snd a) of
        None \<Rightarrow> Inl (ValueError, ''could not broadcast input array'')
      | Some b \<Rightarrow>
          Inr (fst fv, map (\<lambda>i. if i mod nF = cnt then b ! (i div nF) else snd fv ! i)
                           [0..<length (snd fv)]))"

text \<open>\<^verbatim>\<open>featureValues[:, support]\<close> and \<^verbatim>\<open>featureValues[:, :, support]\<close> with a boolean mask.\<close>

definition mask_last :: "ndarray \<Rightarrow> bool list \<Rightarrow> error + ndarray" where
  "mask_last fv support =
     (let nF = last (fst fv) in
      if length support \<noteq> nF then Inl (IndexError, ''boolean index did not match'')
      else Inr (butlast (fst fv) @ [length (filter id support)],
                map (\<lambda>i. snd fv ! i)
                    (filter (\<lambda>i. support ! (i mod nF)) [0..<length (snd fv)])))"

section \<open>The instance, the backend hooks and the other collaborators\<close>

text \<open>
  The attributes of a \<^verbatim>\<open>SupervisedLearning\<close> object that the modelled methods
  read or write. An attribute that \<^verbatim>\<open>__init__\<close> does not assign
  (\<^verbatim>\<open>pivotID\<close>, \<^verbatim>\<open>step\<close>, \<^verbatim>\<open>nFeaturesToSelect\<close>, \<^verbatim>\<open>verbosity\<close>) is
  \<open>None\<close> until a method assigns it. \<^verbatim>\<open>featureShape\<close> is assigned nowhere in
  the class, so it has no field. \<open>backend\<close> is the state of the concrete
  subclass, opaque to the base class; \<open>hookCalls\<close> is a ghost field that
  records every call of a backend hook in order, with the matrices passed.
\<close>

datatype hook_call =
    TrainCall ndarray ndarray
  | RFECall ndarray ndarray
  | ConfidenceCall ndarray
  | EvaluateCall ndarray
  | ResetCall

record 'b SupervisedLearning =
  features :: "string list option"
  target :: "string list option"
  amITrained :: bool
  dynamicHandling :: bool
  dynamicFeatures :: bool
  featureSelectionAlgo :: "string option"
  performPCA :: bool
  pivotID :: "string option"
  step :: "real option"
  nFeaturesToSelect :: "int option option"
  verbosity :: "string option"
  muAndSigmaFeatures :: "string \<rightharpoonup> real \<times> real"
  backend :: 'b
  hookCalls :: "hook_call list"

text \<open>
  What the class calls and this file does not contain:
  \<^item> \<open>normalizationFactors\<close> is \<^verbatim>\<open>mathUtils.normalizationFactors\<close>, a parameter;
  \<^item> \<open>backendTrain\<close>, \<open>confidenceLocal\<close>, \<open>evaluateLocal\<close> and \<open>resetLocal\<close> are
    the abstract methods \<^verbatim>\<open>_train\<close>, \<^verbatim>\<open>__confidenceLocal__\<close>,
    \<^verbatim>\<open>__evaluateLocal__\<close> and \<^verbatim>\<open>__resetLocal__\<close> of the subclass; each reads and
    writes the backend state and returns normally or raises (\<open>Inl\<close> with the
    message);
  \<^item> \<open>rfeTrain\<close>. Modelled from the spec: the class \<^verbatim>\<open>RFE\<close> of
    \<^verbatim>\<open>FeatureSelection\<close> is not among the sources; by section 4.3 of the
    specification it takes the feature matrix, the target matrix, the number
    of features to select and the step, and returns the reduced feature names
    and a mask over the feature axis.
\<close>

record 'b collaborators =
  normalizationFactors :: "pyval \<Rightarrow> string + real \<times> real"
  rfeTrain :: "'b \<Rightarrow> int option \<Rightarrow> real \<Rightarrow> ndarray \<Rightarrow> ndarray
                \<Rightarrow> (string + string list \<times> bool list) \<times> 'b"
  backendTrain :: "'b \<Rightarrow> ndarray \<Rightarrow> ndarray \<Rightarrow> (string + unit) \<times> 'b"
  confidenceLocal :: "'b \<Rightarrow> ndarray \<Rightarrow> (string + pyval) \<times> 'b"
  evaluateLocal :: "'b \<Rightarrow> ndarray \<Rightarrow> (string + pyval) \<times> 'b"
  resetLocal :: "'b \<Rightarrow> (string + unit) \<times> 'b"

text \<open>The outcome of a call of a collaborator, as the caller sees it.\<close>

definition raised :: "string + 'a \<Rightarrow> error + 'a" where
  "raised r = (case r of Inl msg \<Rightarrow> Inl (BackendError, msg) | Inr x \<Rightarrow> Inr x)"

text \<open>\<^verbatim>\<open>__init__\<close>, on the initial state of the subclass.\<close>

definition init :: "'b \<Rightarrow> 'b SupervisedLearning" where
  "init b = \<lparr> features = None, target = None, amITrained = False,
               dynamicHandling = False, dynamicFeatures = False,
               featureSelectionAlgo = None, performPCA = False, pivotID = None,
               step = None, nFeaturesToSelect = None, verbosity = None,
               muAndSigmaFeatures = Map.empty, backend = b, hookCalls = [] \<rparr>"

definition isDynamic :: "'b SupervisedLearning \<Rightarrow> bool" where
  "isDynamic s = dynamicHandling s"

subsection \<open>Configuration\<close>

text \<open>
  The values \<^verbatim>\<open>findNodesAndExtractValues\<close> returns to \<^verbatim>\<open>_handleInput\<close>
  (the assertion says all seven were found), and the entries of the dictionary
  given to \<^verbatim>\<open>initializeFromDict\<close>, \<open>None\<close> for a key that is absent.
\<close>

record paramInput =
  nodeFeatures :: "string list"
  nodeTarget :: "string list"
  nodePivotParameter :: string
  nodeFeatureSelectionAlgorithm :: "string option"
  nodePerformPCA :: bool
  nodeStep :: real
  nodeNFeaturesToSelect :: "int option"

record inputDict =
  dictFeatures :: "string list option"
  dictTarget :: "string list option"
  dictFeatureSelectionAlgorithm :: "string option"
  dictPerformPCA :: "bool option"
  dictVerbosity :: "string option"

text \<open>
  \<^verbatim>\<open>_handleInput\<close>. The names common to both lists are a Python set, whose
  order of enumeration is not fixed; here they are listed in the order of the
  targets.
\<close>

definition handleInput ::
  "'b SupervisedLearning \<Rightarrow> paramInput \<Rightarrow> 'b SupervisedLearning \<times> (error + unit)" where
  "handleInput s nodes =
     (let s' = s\<lparr> features := Some (nodeFeatures nodes),
                  target := Some (nodeTarget nodes),
                  pivotID := Some (nodePivotParameter nodes),
                  featureSelectionAlgo := nodeFeatureSelectionAlgorithm nodes,
                  performPCA := nodePerformPCA nodes,
                  step := Some (nodeStep nodes),
                  nFeaturesToSelect := Some (nodeNFeaturesToSelect nodes) \<rparr>;
          dups = filter (\<lambda>t. t \<in> set (nodeFeatures nodes)) (remdups (nodeTarget nodes))
      in if length dups \<noteq> 0
         then (s', Inl (IOError, ''The target(s) '' @ [CHR 0x22] @ join '', '' dups @ [CHR 0x22]
                                  @ '' is/are also among the given features!''))
         else (s', Inr ()))"

text \<open>\<^verbatim>\<open>initializeFromDict\<close>\<close>

definition initializeFromDict ::
  "'b SupervisedLearning \<Rightarrow> inputDict \<Rightarrow> 'b SupervisedLearning \<times> (error + unit)" where
  "initializeFromDict s d =
     (s\<lparr> features := dictFeatures d,
         target := dictTarget d,
         featureSelectionAlgo := dictFeatureSelectionAlgorithm d,
         performPCA := (case dictPerformPCA d of None \<Rightarrow> False | Some b \<Rightarrow> b),
         verbosity := dictVerbosity d \<rparr>, Inr ())"

subsection \<open>Reading the dictionary\<close>

text \<open>
  \<^verbatim>\<open>names.index(x)\<close> for a name that is in the list, and
  \<^verbatim>\<open>values[names.index(x)]\<close>, which raises \<^verbatim>\<open>ValueError\<close> for a name that is
  not.
\<close>

definition index :: "'a list \<Rightarrow> 'a \<Rightarrow> nat" where
  "index xs x = length (takeWhile (\<lambda>y. y \<noteq> x) xs)"

definition item :: "string list \<Rightarrow> pyval list \<Rightarrow> string \<Rightarrow> error + pyval" where
  "item names vals x =
     (if x \<in> set names then Inr (vals ! index names x)
      else Inl (ValueError, [CHR 0x27] @ x @ [CHR 0x27] @ '' is not in list''))"

definition first_value :: "pyval list \<Rightarrow> error + pyval" where
  "first_value vals =
     (case vals of [] \<Rightarrow> Inl (IndexError, ''list index out of range'') | v # vs \<Rightarrow> Inr v)"

text \<open>\<^verbatim>\<open>str(type(v))\<close>; the module of a framework class is left out.\<close>

definition str_type :: "pyval \<Rightarrow> string" where
  "str_type v =
     ''<class '' @ [CHR 0x27]
       @ (case v of NdArray sh d \<Rightarrow> ''numpy.ndarray'' | _ \<Rightarrow> type_name v)
       @ [CHR 0x27] @ ''>''"

section \<open>train\<close>

text \<open>The loop that collects the values of the targets (an absent target is fatal).\<close>

fun targetLoop :: "string list \<Rightarrow> pyval list \<Rightarrow> string list \<Rightarrow> error + pyval list" where
  "targetLoop names vals [] = Inr []"
| "targetLoop names vals (tgt # rest) =
     (if tgt \<in> set names
      then (case targetLoop names vals rest of
              Inl e \<Rightarrow> Inl e
            | Inr tvs \<Rightarrow> Inr (vals ! index names tgt # tvs))
      else Inl (IOError, ''The target '' @ tgt @ '' is not in the training set''))"

text \<open>
  The loop of the dynamic branch that sizes the time axis:
  \<^verbatim>\<open>featLen = max(values[names.index(feat)][0].size, featLen)\<close>.
\<close>

fun featLenLoop :: "string list \<Rightarrow> pyval list \<Rightarrow> string list \<Rightarrow> nat \<Rightarrow> error + nat" where
  "featLenLoop names vals [] featLen = Inr featLen"
| "featLenLoop names vals (feat # rest) featLen =
     (case item names vals feat of
        Inl e \<Rightarrow> Inl e
      | Inr v \<Rightarrow>
          (case subscript0 v of
             Inl e \<Rightarrow> Inl e
           | Inr v0 \<Rightarrow>
               (case size_attr v0 of
                  Inl e \<Rightarrow> Inl e
                | Inr n \<Rightarrow> featLenLoop names vals rest (max n featLen))))"

text \<open>\<^verbatim>\<open>_localNormalizeData\<close> of the base class.\<close>

definition localNormalizeData ::
  "'b collaborators \<Rightarrow> 'b SupervisedLearning \<Rightarrow> string list \<Rightarrow> pyval list \<Rightarrow> string
   \<Rightarrow> 'b SupervisedLearning \<times> (error + unit)" where
  "localNormalizeData C s names vals feat =
     (case item names vals feat of
        Inl e \<Rightarrow> (s, Inl e)
      | Inr v \<Rightarrow>
          (case raised (normalizationFactors C v) of
             Inl e \<Rightarrow> (s, Inl e)
           | Inr ms \<Rightarrow> (s\<lparr> muAndSigmaFeatures := (muAndSigmaFeatures s)(feat \<mapsto> ms) \<rparr>, Inr ())))"

text \<open>
  The loop over the declared features, \<open>cnt\<close> being the index of
  \<^verbatim>\<open>enumerate\<close> and \<open>fv\<close> the matrix \<^verbatim>\<open>featureValues\<close>. The two warnings
  before the row-count error only print.
\<close>

fun trainLoop ::
  "'b collaborators \<Rightarrow> string list \<Rightarrow> pyval list \<Rightarrow> string list \<Rightarrow> nat
   \<Rightarrow> 'b SupervisedLearning \<Rightarrow> ndarray \<Rightarrow> 'b SupervisedLearning \<times> (error + ndarray)" where
  "trainLoop C names vals [] cnt s fv = (s, Inr fv)"
| "trainLoop C names vals (feat # rest) cnt s fv =
     (if feat \<notin> set names
      then (s, Inl (IOError, ''The feature sought '' @ feat @ '' is not in the training set''))
      else
        let valueToUse = vals ! index names feat;
            resp = checkArrayConsistency valueToUse (isDynamic s)
        in if \<not> fst resp
           then (s, Inl (IOError, ''In training set for feature '' @ feat @ '':'' @ snd resp))
           else
             (case asarray valueToUse of
                Inl e \<Rightarrow> (s, Inl e)
              | Inr arr \<Rightarrow>
                  (case np_len arr of
                     Inl e \<Rightarrow> (s, Inl e)
                   | Inr n \<Rightarrow>
                       if n \<noteq> hd (fst fv)
                       then (s, Inl (IOError, ''In training set, the number of values provided for feature ''
                                      @ feat @ '' are != number of target outcomes!''))
                       else
                         (case localNormalizeData C s names vals feat of
                            (s', Inl e) \<Rightarrow> (s', Inl e)
                          | (s', Inr u) \<Rightarrow>
                              (case (if dynamicFeatures s' then slice_all2 arr
                                     else if length (fst arr) > 1 then column0 arr
                                     else slice_all1 arr) of
                                 Inl e \<Rightarrow> (s', Inl e)
                               | Inr a \<Rightarrow>
                                   (case muAndSigmaFeatures s' feat of
                                      None \<Rightarrow> (s', Inl (KeyError, feat))
                                    | Some ms \<Rightarrow>
                                        (case assign_last cnt fv (normalize a ms) of
                                           Inl e \<Rightarrow> (s', Inl e)
                                         | Inr fv' \<Rightarrow>
                                             trainLoop C names vals rest (Suc cnt) s' fv')))))))"

text \<open>The feature selection step, taken when the algorithm is \<^verbatim>\<open>'RFE'\<close>.\<close>

definition featureSelection ::
  "'b collaborators \<Rightarrow> 'b SupervisedLearning \<Rightarrow> ndarray \<Rightarrow> ndarray
   \<Rightarrow> 'b SupervisedLearning \<times> (error + ndarray)" where
  "featureSelection C s fv tv =
     (if featureSelectionAlgo s = Some ''RFE''
      then
        (case nFeaturesToSelect s of
           None \<Rightarrow> (s, Inl (AttributeError, ''nFeaturesToSelect''))
         | Some nSel \<Rightarrow>
             (case step s of
                None \<Rightarrow> (s, Inl (AttributeError, ''step''))
              | Some st \<Rightarrow>
                  (case rfeTrain C (backend s) nSel st fv tv of
                     (r, b) \<Rightarrow>
                       let s' = s\<lparr> backend := b, hookCalls := hookCalls s @ [RFECall fv tv] \<rparr>
                       in (case raised r of
                             Inl e \<Rightarrow> (s', Inl e)
                           | Inr (newFeatures, support) \<Rightarrow> (s', mask_last fv support)))))
      else (s, Inr fv))"

text \<open>
  \<^verbatim>\<open>train(tdict, indexMap=None)\<close>. The statements on \<^verbatim>\<open>indexMap\<close> only build
  the local lists \<^verbatim>\<open>needFeatures\<close> and \<^verbatim>\<open>needTargets\<close>, which nothing reads,
  so they are left out. The result is the instance after the call and either
  the exception raised or the normal return.
\<close>

definition train ::
  "'b collaborators \<Rightarrow> 'b SupervisedLearning \<Rightarrow> pyval
   \<Rightarrow> 'b SupervisedLearning \<times> (error + unit)" where
  "train C s tdict =
     (case tdict of
        PyDict kvs \<Rightarrow>
          (let names = map fst kvs; vals = map snd kvs in
           case target s of
             None \<Rightarrow> (s, Inl (TypeError, ''NoneType object is not iterable''))
           | Some tgts \<Rightarrow>
           (case targetLoop names vals tgts of
             Inl e \<Rightarrow> (s, Inl e)
           | Inr tvs \<Rightarrow>
           (case stack_last tvs of
             Inl e \<Rightarrow> (s, Inl e)
           | Inr targetValues \<Rightarrow>
           (case features s of
             None \<Rightarrow> (s, Inl (TypeError, ''NoneType object is not iterable''))
           | Some feats \<Rightarrow>
           (case (if dynamicFeatures s
                  then (case featLenLoop names vals feats 0 of
                          Inl e \<Rightarrow> Inl e
                        | Inr featLen \<Rightarrow>
                            (case np_len targetValues of
                               Inl e \<Rightarrow> Inl e
                             | Inr n \<Rightarrow> Inr (zeros [n, featLen, length feats])))
                  else (case np_len targetValues of
                          Inl e \<Rightarrow> Inl e
                        | Inr n \<Rightarrow> Inr (zeros [n, length feats]))) of
             Inl e \<Rightarrow> (s, Inl e)
           | Inr fv0 \<Rightarrow>
           (case trainLoop C names vals feats 0 s fv0 of
             (s1, Inl e) \<Rightarrow> (s1, Inl e)
           | (s1, Inr fv1) \<Rightarrow>
           (case featureSelection C s1 fv1 targetValues of
             (s2, Inl e) \<Rightarrow> (s2, Inl e)
           | (s2, Inr featureValues) \<Rightarrow>
           (case backendTrain C (backend s2) featureValues targetValues of
             (r, b) \<Rightarrow>
               let s3 = s2\<lparr> backend := b,
                             hookCalls := hookCalls s2 @ [TrainCall featureValues targetValues] \<rparr>
               in (case raised r of
                     Inl e \<Rightarrow> (s3, Inl e)
                   | Inr u \<Rightarrow> (s3\<lparr> amITrained := True \<rparr>, Inr ()))))))))))
      | _ \<Rightarrow>
          (s, Inl (TypeError, ''In method '' @ [CHR 0x22] @ ''train'' @ [CHR 0x22]
                   @ '', the training set needs to be provided through a dictionary. Type of the in-object is ''
                   @ str_type tdict)))"

section \<open>confidence, evaluate and reset\<close>

text \<open>The first loop of \<^verbatim>\<open>confidence\<close>: every value of the dictionary is validated.\<close>

fun confidenceCheckLoop :: "bool \<Rightarrow> (string \<times> pyval) list \<Rightarrow> error + unit" where
  "confidenceCheckLoop dyn [] = Inr ()"
| "confidenceCheckLoop dyn ((name, v) # rest) =
     (let resp = checkArrayConsistency v dyn in
      if \<not> fst resp
      then Inl (IOError, ''In evaluate request for feature '' @ name @ '':'' @ snd resp)
      else confidenceCheckLoop dyn rest)"

text \<open>
  The loop of \<^verbatim>\<open>confidence\<close> over the declared features:
  \<^verbatim>\<open>featureValues[:,cnt] = values[names.index(feat)]\<close>.
\<close>

fun confidenceLoop ::
  "bool \<Rightarrow> string list \<Rightarrow> pyval list \<Rightarrow> string list \<Rightarrow> nat \<Rightarrow> ndarray \<Rightarrow> error + ndarray" where
  "confidenceLoop dyn names vals [] cnt fv = Inr fv"
| "confidenceLoop dyn names vals (feat # rest) cnt fv =
     (if feat \<notin> set names
      then Inl (IOError, ''The feature sought '' @ feat @ '' is not in the evaluate set'')
      else
        let v = vals ! index names feat; resp = checkArrayConsistency v dyn
        in if \<not> fst resp
           then Inl (IOError, ''In training set for feature '' @ feat @ '':'' @ snd resp)
           else
             (case asarray v of
                Inl e \<Rightarrow> Inl e
              | Inr a \<Rightarrow>
                  (case assign_last cnt fv a of
                     Inl e \<Rightarrow> Inl e
                   | Inr fv' \<Rightarrow> confidenceLoop dyn names vals rest (Suc cnt) fv')))"

text \<open>
  \<^verbatim>\<open>confidence(edict)\<close>. In the dynamic branch the shape tuple is evaluated
  from the left: \<^verbatim>\<open>values[0].size\<close>, then \<^verbatim>\<open>self.featureShape[1]\<close>, an
  attribute no method assigns.
\<close>

definition confidence ::
  "'b collaborators \<Rightarrow> 'b SupervisedLearning \<Rightarrow> pyval
   \<Rightarrow> 'b SupervisedLearning \<times> (error + pyval)" where
  "confidence C s edict =
     (case edict of
        PyDict kvs \<Rightarrow>
          (let names = map fst kvs; vals = map snd kvs in
           case confidenceCheckLoop (isDynamic s) kvs of
             Inl e \<Rightarrow> (s, Inl e)
           | Inr u \<Rightarrow>
           (case first_value vals of
             Inl e \<Rightarrow> (s, Inl e)
           | Inr v0 \<Rightarrow>
           (case size_attr v0 of
             Inl e \<Rightarrow> (s, Inl e)
           | Inr n \<Rightarrow>
           if dynamicFeatures s then (s, Inl (AttributeError, ''featureShape''))
           else
           (case features s of
             None \<Rightarrow> (s, Inl (TypeError, ''object of type NoneType has no len()''))
           | Some feats \<Rightarrow>
           (case confidenceLoop (isDynamic s) names vals feats 0 (zeros [n, length feats]) of
             Inl e \<Rightarrow> (s, Inl e)
           | Inr featureValues \<Rightarrow>
           (case confidenceLocal C (backend s) featureValues of
             (r, b) \<Rightarrow>
               (s\<lparr> backend := b,
                   hookCalls := hookCalls s @ [ConfidenceCall featureValues] \<rparr>, raised r)))))))
      | _ \<Rightarrow>
          (s, Inl (IOError, ''method '' @ [CHR 0x22] @ ''confidence'' @ [CHR 0x22]
                   @ ''. The inquiring set needs to be provided through a dictionary. Type of the in-object is ''
                   @ str_type edict)))"

text \<open>
  The first loop of \<^verbatim>\<open>evaluate\<close>: every value is validated and, with dynamic
  features, \<^verbatim>\<open>stepInFeatures = max(stepInFeatures, values[index].shape[-1])\<close>.
\<close>

fun evaluateCheckLoop :: "bool \<Rightarrow> bool \<Rightarrow> (string \<times> pyval) list \<Rightarrow> nat \<Rightarrow> error + nat" where
  "evaluateCheckLoop dyn dynF [] stepInFeatures = Inr stepInFeatures"
| "evaluateCheckLoop dyn dynF ((name, v) # rest) stepInFeatures =
     (let resp = checkArrayConsistency v dyn in
      if \<not> fst resp
      then Inl (IOError, ''In evaluate request for feature '' @ name @ '':'' @ snd resp)
      else if dynF
      then (case shape_last v of
              Inl e \<Rightarrow> Inl e
            | Inr k \<Rightarrow> evaluateCheckLoop dyn dynF rest (max stepInFeatures k))
      else evaluateCheckLoop dyn dynF rest stepInFeatures)"

text \<open>
  The loop of \<^verbatim>\<open>evaluate\<close> over the declared features. Its two branches,
  \<^verbatim>\<open>featureValues[:, :, cnt] = ...\<close> and \<^verbatim>\<open>featureValues[:,cnt] = ...\<close>,
  assign the same normalised value at position \<open>cnt\<close> of the last axis of a
  matrix of three or of two axes; \<open>assign_last\<close> is both. The operands are
  evaluated from the left: the value, the stored center (a \<^verbatim>\<open>KeyError\<close> when
  the feature has none), the difference, the scale, the quotient.
\<close>

fun evaluateLoop ::
  "(string \<rightharpoonup> real \<times> real) \<Rightarrow> bool \<Rightarrow> string list \<Rightarrow> pyval list \<Rightarrow> string list \<Rightarrow> nat
   \<Rightarrow> ndarray \<Rightarrow> error + ndarray" where
  "evaluateLoop musigma dyn names vals [] cnt fv = Inr fv"
| "evaluateLoop musigma dyn names vals (feat # rest) cnt fv =
     (if feat \<notin> set names
      then Inl (IOError, ''The feature sought '' @ feat @ '' is not in the evaluate set'')
      else
        let v = vals ! index names feat; resp = checkArrayConsistency v dyn
        in if \<not> fst resp
           then Inl (IOError, ''In training set for feature '' @ feat @ '':'' @ snd resp)
           else
             (case musigma feat of
                None \<Rightarrow> Inl (KeyError, feat)
              | Some ms \<Rightarrow>
                  (case asarray v of
                     Inl e \<Rightarrow> Inl e
                   | Inr a \<Rightarrow>
                       (case assign_last cnt fv (normalize a ms) of
                          Inl e \<Rightarrow> Inl e
                        | Inr fv' \<Rightarrow> evaluateLoop musigma dyn names vals rest (Suc cnt) fv'))))"

text \<open>\<^verbatim>\<open>evaluate(edict)\<close>\<close>

definition evaluate ::
  "'b collaborators \<Rightarrow> 'b SupervisedLearning \<Rightarrow> pyval
   \<Rightarrow> 'b SupervisedLearning \<times> (error + pyval)" where
  "evaluate C s edict =
     (case edict of
        PyDict kvs \<Rightarrow>
          (let names = map fst kvs; vals = map snd kvs in
           case evaluateCheckLoop (isDynamic s) (dynamicFeatures s) kvs 0 of
             Inl e \<Rightarrow> (s, Inl e)
           | Inr stepInFeatures \<Rightarrow>
           (case first_value vals of
             Inl e \<Rightarrow> (s, Inl e)
           | Inr v0 \<Rightarrow>
           (case size_attr v0 of
             Inl e \<Rightarrow> (s, Inl e)
           | Inr n \<Rightarrow>
           (case features s of
             None \<Rightarrow> (s, Inl (TypeError, ''object of type NoneType has no len()''))
           | Some feats \<Rightarrow>
           (case evaluateLoop (muAndSigmaFeatures s) (isDynamic s) names vals feats 0
                   (if dynamicFeatures s then zeros [n, stepInFeatures, length feats]
                    else zeros [n, length feats]) of
             Inl e \<Rightarrow> (s, Inl e)
           | Inr featureValues \<Rightarrow>
           (case evaluateLocal C (backend s) featureValues of
             (r, b) \<Rightarrow>
               (s\<lparr> backend := b,
                   hookCalls := hookCalls s @ [EvaluateCall featureValues] \<rparr>, raised r)))))))
      | _ \<Rightarrow>
          (s, Inl (IOError, ''method '' @ [CHR 0x22] @ ''evaluate'' @ [CHR 0x22]
                   @ ''. The evaluate request/s need/s to be provided through a dictionary. Type of the in-object is ''
                   @ str_type edict)))"

text \<open>\<^verbatim>\<open>reset()\<close>\<close>

definition reset ::
  "'b collaborators \<Rightarrow> 'b SupervisedLearning \<Rightarrow> 'b SupervisedLearning \<times> (error + unit)" where
  "reset C s =
     (let s1 = s\<lparr> amITrained := False \<rparr> in
      case resetLocal C (backend s1) of
        (r, b) \<Rightarrow> (s1\<lparr> backend := b, hookCalls := hookCalls s1 @ [ResetCall] \<rparr>, raised r))"

text \<open>A sequence of \<^verbatim>\<open>evaluate\<close> calls on one instance, with the outcome of each.\<close>

fun evaluateMany ::
  "'b collaborators \<Rightarrow> 'b SupervisedLearning \<Rightarrow> pyval list
   \<Rightarrow> 'b SupervisedLearning \<times> (error + pyval) list" where
  "evaluateMany C s [] = (s, [])"
| "evaluateMany C s (edict # rest) =
     (case evaluate C s edict of
        (s1, r) \<Rightarrow> (case evaluateMany C s1 rest of (s2, rs) \<Rightarrow> (s2, r # rs)))"

text \<open>
  The instance holds for a name the normalization factors of the value the
  dictionary binds to it.
\<close>

definition fitted ::
  "'b collaborators \<Rightarrow> string list \<Rightarrow> pyval list \<Rightarrow> 'b SupervisedLearning \<Rightarrow> string \<Rightarrow> bool" where
  "fitted C names vals s f =
     (\<exists>v ms. item names vals f = Inr v \<and> normalizationFactors C v = Inr ms
             \<and> muAndSigmaFeatures s f = Some ms)"

section \<open>A sample subclass for the concrete scenarios\<close>

text \<open>
  A backend whose state counts the trainings: it normalises with center 1 and
  scale 2, keeps every feature in the selection, and predicts and scores zero
  for every sample.
\<close>

definition sampleBackend :: "nat collaborators" where
  "sampleBackend =
     \<lparr> normalizationFactors = (\<lambda>v. Inr (1, 2)),
       rfeTrain = (\<lambda>b nSel st fv tv. (Inr ([], replicate (last (fst fv)) True), b)),
       backendTrain = (\<lambda>b fv tv. (Inr (), Suc b)),
       confidenceLocal = (\<lambda>b fv. (Inr (NdArray [hd (fst fv)] (replicate (hd (fst fv)) 0)), b)),
       evaluateLocal = (\<lambda>b fv. (Inr (NdArray [hd (fst fv)] (replicate (hd (fst fv)) 0)), b)),
       resetLocal = (\<lambda>b. (Inr (), 0)) \<rparr>"

text \<open>An instance with features \<open>x\<close> and target \<open>y\<close>, static or dynamic.\<close>

definition sampleInstance :: "bool \<Rightarrow> nat SupervisedLearning" where
  "sampleInstance dyn =
     (init 0)\<lparr> features := Some [''x''], target := Some [''y''],
               dynamicHandling := dyn, dynamicFeatures := dyn \<rparr>"

text \<open>The static instance after training on \<open>x = [0, 1]\<close>, \<open>y = [0, 2]\<close>.\<close>

definition sampleTrained :: "nat SupervisedLearning" where
  "sampleTrained =
     fst (train sampleBackend (sampleInstance False)
            (PyDict [(''x'', NdArray [2] [0, 1]), (''y'', NdArray [2] [0, 2])]))"

section \<open>Properties of the array validator\<close>

lemma checkElements_all_ok:
  "\<forall>x\<in>set xs. fst (checkArrayConsistency x False) \<Longrightarrow> checkElements cnt xs = (True, '''')"
  by (induction xs arbitrary: cnt) (simp_all add: Let_def)

lemma checkElements_first_failure:
  "i < length xs \<Longrightarrow> \<not> fst (checkArrayConsistency (xs ! i) False) \<Longrightarrow>
   \<forall>j<i. fst (checkArrayConsistency (xs ! j) False) \<Longrightarrow>
   checkElements cnt xs =
     (False, '' The element number '' @ str_nat (cnt + i)
             @ '' is not a consistent array. Error: '' @ snd (checkArrayConsistency (xs ! i) False))"
proof (induction xs arbitrary: cnt i)
  case Nil
  then show ?case by simp
next
  case (Cons x xs)
  show ?case
  proof (cases i)
    case 0
    with Cons.prems show ?thesis by (simp add: Let_def)
  next
    case (Suc k)
    from Cons.prems Suc have hd_ok: "fst (checkArrayConsistency x False)" by auto
    have tl_ok: "\<forall>j<k. fst (checkArrayConsistency (xs ! j) False)"
      using Cons.prems(3) Suc by auto
    have "checkElements (Suc cnt) xs =
      (False, '' The element number '' @ str_nat (Suc cnt + k)
             @ '' is not a consistent array. Error: '' @ snd (checkArrayConsistency (xs ! k) False))"
      using Cons.IH[of k "Suc cnt"] Cons.prems Suc tl_ok by simp
    with hd_ok Suc show ?thesis by (simp add: Let_def)
  qed
qed

text \<open>
  Claim C9, as the code has it. \<^verbatim>\<open>None\<close> is invalid with the message that the
  object contains no entries. A list is invalid when \<open>isDynamic\<close> is false;
  when it is true the list is valid if every element passes the non-dynamic
  check, and otherwise the first failing element gives the message with its
  index. A value that is not a list is checked the same way whether
  \<open>isDynamic\<close> is true or false: an array of more than one axis is invalid
  with the message that shows its shape, an array of at most one axis is
  valid, and a value of another class is invalid with its type name.
\<close>

theorem checkArrayConsistency_contract:
  "checkArrayConsistency PyNone dyn = (False, '' The object is None, and contains no entries!'')
   \<and> checkArrayConsistency (PyList xs) False
       = (False, '' The list type is allowed for dynamic ROMs only'')
   \<and> ((\<forall>x\<in>set xs. fst (checkArrayConsistency x False))
        \<longrightarrow> checkArrayConsistency (PyList xs) True = (True, ''''))
   \<and> (i < length xs \<and> \<not> fst (checkArrayConsistency (xs ! i) False)
        \<and> (\<forall>j<i. fst (checkArrayConsistency (xs ! j) False))
        \<longrightarrow> checkArrayConsistency (PyList xs) True
            = (False, '' The element number '' @ str_nat i
                      @ '' is not a consistent array. Error: ''
                      @ snd (checkArrayConsistency (xs ! i) False)))
   \<and> checkArrayConsistency (NdArray sh d) dyn
       = (if length sh > 1
          then (False, '' The array must be 1-d. Got shape: '' @ str_shape sh)
          else (True, ''''))
   \<and> checkArrayConsistency (C1dArray d) dyn = (True, '''')
   \<and> checkArrayConsistency (PyFloat r) dyn
       = (False, '' The object is not a numpy array. Got type: float'')
   \<and> checkArrayConsistency (PyDict kvs) dyn
       = (False, '' The object is not a numpy array. Got type: dict'')
   \<and> (n \<notin> {''ndarray'', ''c1darray''}
        \<longrightarrow> checkArrayConsistency (PyOther n) dyn
            = (False, '' The object is not a numpy array. Got type: '' @ n))"
proof -
  have list_ok: "(\<forall>x\<in>set xs. fst (checkArrayConsistency x False))
        \<longrightarrow> checkArrayConsistency (PyList xs) True = (True, '''')"
    by (simp add: checkArrayConsistency_unfold checkElements_all_ok)
  have list_bad: "i < length xs \<and> \<not> fst (checkArrayConsistency (xs ! i) False)
        \<and> (\<forall>j<i. fst (checkArrayConsistency (xs ! j) False))
        \<longrightarrow> checkArrayConsistency (PyList xs) True
            = (False, '' The element number '' @ str_nat i
                      @ '' is not a consistent array. Error: ''
                      @ snd (checkArrayConsistency (xs ! i) False))"
    using checkElements_first_failure[of i xs 0]
    by (simp add: checkArrayConsistency_unfold)
  show ?thesis
    using list_ok list_bad by (simp add: checkArrayConsistency_unfold)
qed

theorem checkArrayConsistency_contract_witness:
  "checkArrayConsistency (PyList [NdArray [2] [1, 2], C1dArray [3]]) True = (True, '''')
   \<and> checkArrayConsistency (PyList [NdArray [2] [1, 2], NdArray [2, 2] [1, 2, 3, 4]]) True
       = (False, '' The element number 1 is not a consistent array. Error:  The array must be 1-d. Got shape: (2, 2)'')
   \<and> checkArrayConsistency (PyOther ''str'') True
       = (False, '' The object is not a numpy array. Got type: str'')"
proof -
  let ?good = "[NdArray [2] [1, 2], C1dArray [3]]"
  let ?bad = "[NdArray [2] [1, 2], NdArray [2, 2] [1, 2, 3, 4]]"
  have h1: "\<forall>x\<in>set ?good. fst (checkArrayConsistency x False)"
    by (simp add: checkArrayConsistency_unfold)
  have h2: "(1::nat) < length ?bad \<and> \<not> fst (checkArrayConsistency (?bad ! 1) False)
     \<and> (\<forall>j<(1::nat). fst (checkArrayConsistency (?bad ! j) False))"
    by (simp add: checkArrayConsistency_unfold)
  have h3: "''str'' \<notin> {''ndarray'', ''c1darray''}" by simp
  have c1: "checkArrayConsistency (PyList ?good) True = (True, '''')"
    using checkArrayConsistency_contract[of dyn ?good] h1 by blast
  have c2: "checkArrayConsistency (PyList ?bad) True
       = (False, '' The element number '' @ str_nat 1
                      @ '' is not a consistent array. Error: ''
                      @ snd (checkArrayConsistency (?bad ! 1) False))"
    using checkArrayConsistency_contract[of dyn ?bad 1] h2 by blast
  have c3: "checkArrayConsistency (PyOther ''str'') True
       = (False, '' The object is not a numpy array. Got type: '' @ ''str'')"
    using checkArrayConsistency_contract[where n="''str''" and dyn=True] h3 by blast
  have s1: "str_nat 1 = ''1''" by (simp add: str_nat.simps digit_char_def)
  have s2: "str_nat 2 = ''2''" by (simp add: str_nat.simps digit_char_def)
  show ?thesis using c1 c2 c3 s1 s2
    by (simp add: checkArrayConsistency_unfold str_shape_def)
qed

text \<open>
  Claim C9 as stated requires a sequence when \<open>isDynamic\<close> is true; the
  validator accepts a plain one-dimensional array there.
\<close>

theorem checkArrayConsistency_dynamic_array_counterexample:
  "checkArrayConsistency (NdArray [2] [1, 2]) True = (True, '''')"
  by (simp add: checkArrayConsistency_unfold)

section \<open>Failures of train\<close>

lemmas run_defs = train_def evaluate_def confidence_def reset_def sampleInstance_def init_def
  sampleBackend_def index_def stack_last_def same_shape_def np_len_def zeros_def isDynamic_def
  checkArrayConsistency_unfold localNormalizeData_def item_def raised_def slice_all1_def
  slice_all2_def column0_def chunks_def first_value_def
  normalize_def assign_last_def featureSelection_def Let_def str_type_def

lemma localNormalizeData_frame:
  "localNormalizeData C s names vals feat = (s', r) \<Longrightarrow>
   hookCalls s' = hookCalls s \<and> backend s' = backend s \<and> amITrained s' = amITrained s
   \<and> dynamicFeatures s' = dynamicFeatures s \<and> isDynamic s' = isDynamic s"
  by (auto simp: localNormalizeData_def isDynamic_def split: sum.splits)

lemma trainLoop_frame:
  "trainLoop C names vals feats cnt s fv = (s', r) \<Longrightarrow>
   hookCalls s' = hookCalls s \<and> backend s' = backend s \<and> amITrained s' = amITrained s"
proof (induction feats arbitrary: cnt s fv)
  case Nil
  then show ?case by simp
next
  case (Cons feat rest)
  show ?case
  proof (cases "localNormalizeData C s names vals feat")
    case (Pair s1 r1)
    note fr = localNormalizeData_frame[OF Pair]
    from Cons.prems Pair show ?thesis
      using fr Cons.IH
      by (auto simp: Let_def split: if_splits sum.splits option.splits)
  qed
qed

lemma featureSelection_frame:
  "featureSelection C s fv tv = (s', r) \<Longrightarrow>
   amITrained s' = amITrained s \<and> muAndSigmaFeatures s' = muAndSigmaFeatures s
   \<and> ((hookCalls s' = hookCalls s \<and> backend s' = backend s)
      \<or> hookCalls s' = hookCalls s @ [RFECall fv tv])"
  by (auto simp: featureSelection_def Let_def split: if_splits option.splits prod.splits sum.splits)

lemma mask_last_error: "mask_last fv support = Inl e \<Longrightarrow> fst e = IndexError"
  by (auto simp: mask_last_def Let_def split: if_splits)

lemma featureSelection_error:
  "featureSelection C s fv tv = (s', Inl e) \<Longrightarrow>
   fst e \<in> {AttributeError, BackendError, IndexError}"
  by (auto simp: featureSelection_def Let_def raised_def dest: mask_last_error
      split: if_splits option.splits prod.splits sum.splits)

text \<open>
  Claim C3. A call of \<^verbatim>\<open>train\<close> that raises leaves \<^verbatim>\<open>amITrained\<close> as it was.
  When the exception is one of those \<^verbatim>\<open>train\<close> raises itself through
  \<^verbatim>\<open>raiseAnError\<close> (\<^verbatim>\<open>TypeError\<close> for an input that is not a dictionary,
  \<^verbatim>\<open>IOError\<close> for a missing target or feature, an array that fails
  validation, or a wrong number of rows), no hook has been called and the
  backend state is untouched; and \<^verbatim>\<open>_train\<close> has been called only when the
  exception comes out of a collaborator.
\<close>

theorem train_failure_before_backend:
  assumes "train C s tdict = (s', Inl e)"
  shows "amITrained s' = amITrained s
       \<and> (fst e \<in> {TypeError, IOError} \<longrightarrow> hookCalls s' = hookCalls s \<and> backend s' = backend s)
       \<and> (fst e \<noteq> BackendError
            \<longrightarrow> (\<exists>cs. hookCalls s' = hookCalls s @ cs \<and> (\<forall>fv tv. TrainCall fv tv \<notin> set cs)))"
proof (cases tdict)
  case (PyDict kvs)
  let ?names = "map fst kvs" and ?vals = "map snd kvs"
  show ?thesis
  proof (cases "target s")
    case None
    with assms PyDict show ?thesis by (auto simp: train_def)
  next
    case (Some tgts)
    show ?thesis
    proof (cases "targetLoop ?names ?vals tgts")
      case (Inl e1)
      with assms PyDict Some show ?thesis by (auto simp: train_def)
    next
      case tl: (Inr tvs)
      show ?thesis
      proof (cases "stack_last tvs")
        case (Inl e1)
        with assms PyDict Some tl show ?thesis by (auto simp: train_def)
      next
        case st: (Inr targetValues)
        show ?thesis
        proof (cases "features s")
          case None
          with assms PyDict Some tl st show ?thesis by (auto simp: train_def)
        next
          case fs: (Some feats)
          let ?pre = "(if dynamicFeatures s
                  then (case featLenLoop ?names ?vals feats 0 of
                          Inl e \<Rightarrow> Inl e
                        | Inr featLen \<Rightarrow>
                            (case np_len targetValues of
                               Inl e \<Rightarrow> Inl e
                             | Inr n \<Rightarrow> Inr (zeros [n, featLen, length feats])))
                  else (case np_len targetValues of
                          Inl e \<Rightarrow> Inl e
                        | Inr n \<Rightarrow> Inr (zeros [n, length feats])))"
          show ?thesis
          proof (cases ?pre)
            case (Inl e1)
            with assms PyDict Some tl st fs show ?thesis by (auto simp: train_def)
          next
            case pre: (Inr fv0)
            obtain s1 r1 where loop: "trainLoop C ?names ?vals feats 0 s fv0 = (s1, r1)"
              by (cases "trainLoop C ?names ?vals feats 0 s fv0") auto
            note f1 = trainLoop_frame[OF loop]
            show ?thesis
            proof (cases r1)
              case (Inl e1)
              with assms PyDict Some tl st fs pre loop f1 show ?thesis
                by (auto simp: train_def)
            next
              case r1: (Inr fv1)
              obtain s2 r2 where sel: "featureSelection C s1 fv1 targetValues = (s2, r2)"
                by (cases "featureSelection C s1 fv1 targetValues") auto
              note f2 = featureSelection_frame[OF sel]
              show ?thesis
              proof (cases r2)
                case (Inl e2)
                from sel Inl have k: "fst e2 \<in> {AttributeError, BackendError, IndexError}"
                  using featureSelection_error by blast
                from assms PyDict Some tl st fs pre loop r1 sel Inl
                have res: "s' = s2" "e = e2" by (auto simp: train_def)
                from f1 f2 k res show ?thesis by auto
              next
                case r2: (Inr featureValues)
                obtain r b where bt: "backendTrain C (backend s2) featureValues targetValues = (r, b)"
                  by (cases "backendTrain C (backend s2) featureValues targetValues") auto
                from assms PyDict Some tl st fs pre loop r1 sel r2 bt
                have res: "s' = s2\<lparr> backend := b,
                             hookCalls := hookCalls s2 @ [TrainCall featureValues targetValues] \<rparr>"
                   "fst e = BackendError"
                  by (auto simp: train_def Let_def raised_def split: sum.splits)
                from f1 f2 res show ?thesis by auto
              qed
            qed
          qed
        qed
      qed
    qed
  qed
qed (use assms in \<open>auto simp: train_def\<close>)

text \<open>
  The first feature is normalised and stored, the second is missing from the
  training set: the call raises, nothing is trained.
\<close>

theorem train_failure_before_backend_witness:
  "snd (train sampleBackend ((sampleInstance False)\<lparr> features := Some [''x'', ''z''] \<rparr>)
          (PyDict [(''x'', NdArray [2] [0, 1]), (''y'', NdArray [2] [0, 2])]))
     = Inl (IOError, ''The feature sought z is not in the training set'')
   \<and> amITrained (fst (train sampleBackend ((sampleInstance False)\<lparr> features := Some [''x'', ''z''] \<rparr>)
          (PyDict [(''x'', NdArray [2] [0, 1]), (''y'', NdArray [2] [0, 2])]))) = False
   \<and> hookCalls (fst (train sampleBackend ((sampleInstance False)\<lparr> features := Some [''x'', ''z''] \<rparr>)
          (PyDict [(''x'', NdArray [2] [0, 1]), (''y'', NdArray [2] [0, 2])]))) = []
   \<and> muAndSigmaFeatures (fst (train sampleBackend ((sampleInstance False)\<lparr> features := Some [''x'', ''z''] \<rparr>)
          (PyDict [(''x'', NdArray [2] [0, 1]), (''y'', NdArray [2] [0, 2])]))) ''x'' = Some (1, 2)"
proof -
  let ?s = "(sampleInstance False)\<lparr> features := Some [''x'', ''z''] \<rparr>"
  let ?d = "PyDict [(''x'', NdArray [2] [0, 1]), (''y'', NdArray [2] [0, 2])]"
  have r: "snd (train sampleBackend ?s ?d)
             = Inl (IOError, ''The feature sought z is not in the training set'')"
    by (simp add: run_defs upt_rec)
  have m: "muAndSigmaFeatures (fst (train sampleBackend ?s ?d)) ''x'' = Some (1, 2)"
    by (simp add: run_defs upt_rec)
  have h: "train sampleBackend ?s ?d
             = (fst (train sampleBackend ?s ?d),
                Inl (IOError, ''The feature sought z is not in the training set''))"
    using r by (metis prod.collapse)
  have a: "amITrained ?s = False" "hookCalls ?s = []"
    by (simp_all add: sampleInstance_def init_def)
  from train_failure_before_backend[OF h] a r m show ?thesis by simp
qed

section \<open>The normalization parameters across evaluate\<close>

lemma evaluate_frame:
  "evaluate C s edict = (s', r) \<Longrightarrow>
   muAndSigmaFeatures s' = muAndSigmaFeatures s \<and> amITrained s' = amITrained s
   \<and> features s' = features s"
  by (cases edict)
     (auto simp: evaluate_def Let_def split: sum.splits option.splits prod.splits)

lemma evaluateMany_keeps:
  "muAndSigmaFeatures (fst (evaluateMany C s edicts)) = muAndSigmaFeatures s
   \<and> features (fst (evaluateMany C s edicts)) = features s"
proof (induction edicts arbitrary: s)
  case Nil
  then show ?case by simp
next
  case (Cons edict rest)
  obtain s1 r where e: "evaluate C s edict = (s1, r)" by (cases "evaluate C s edict") auto
  obtain s2 rs where m: "evaluateMany C s1 rest = (s2, rs)"
    by (cases "evaluateMany C s1 rest") auto
  from evaluate_frame[OF e] Cons.IH[of s1] e m show ?case
    by simp
qed

text \<open>
  What an assignment to position \<open>cnt\<close> of the last axis writes, and what the
  feature loop of \<^verbatim>\<open>evaluate\<close> leaves in the matrix: position \<open>k + j\<close> holds
  the values of the \<open>j\<close>-th remaining feature, normalised with the pair stored
  for it and broadcast to the other axes.
\<close>

lemma assign_last_entries:
  assumes "assign_last cnt fv a = Inr fv'"
  shows "fst fv' = fst fv \<and> length (snd fv') = length (snd fv)
     \<and> (\<exists>b. bcast (butlast (fst fv)) (strip_ones (length (butlast (fst fv))) (fst a)) (snd a) = Some b
            \<and> (\<forall>i<length (snd fv).
                  snd fv' ! i = (if i mod last (fst fv) = cnt then b ! (i div last (fst fv))
                                 else snd fv ! i)))"
  using assms
  by (auto simp: assign_last_def Let_def split: option.splits)

lemma evaluateLoop_entries:
  assumes "evaluateLoop M dyn names vals rest k fv0 = Inr fv"
  shows "fst fv = fst fv0 \<and> length (snd fv) = length (snd fv0)
     \<and> (\<forall>i<length (snd fv0). i mod last (fst fv0) < k \<longrightarrow> snd fv ! i = snd fv0 ! i)
     \<and> (\<forall>j<length rest. \<exists>ms v a b.
            M (rest ! j) = Some ms \<and> item names vals (rest ! j) = Inr v \<and> asarray v = Inr a
            \<and> bcast (butlast (fst fv0)) (strip_ones (length (butlast (fst fv0))) (fst a))
                 (map (\<lambda>x. (x - fst ms) / snd ms) (snd a)) = Some b
            \<and> (\<forall>i<length (snd fv0). i mod last (fst fv0) = k + j
                  \<longrightarrow> snd fv ! i = b ! (i div last (fst fv0))))"
  using assms
proof (induction rest arbitrary: k fv0)
  case Nil
  then show ?case by simp
next
  case (Cons feat rest)
  let ?v = "vals ! index names feat"
  from Cons.prems obtain ms a fv1 where
    mem: "feat \<in> set names" and ms: "M feat = Some ms" and a: "asarray ?v = Inr a"
    and as: "assign_last k fv0 (normalize a ms) = Inr fv1"
    and loop: "evaluateLoop M dyn names vals rest (Suc k) fv1 = Inr fv"
    by (auto simp: Let_def split: if_splits option.splits sum.splits)
  from assign_last_entries[OF as] obtain b where
    sh1: "fst fv1 = fst fv0" and len1: "length (snd fv1) = length (snd fv0)"
    and b: "bcast (butlast (fst fv0)) (strip_ones (length (butlast (fst fv0))) (fst a))
                 (map (\<lambda>x. (x - fst ms) / snd ms) (snd a)) = Some b"
    and ent1: "\<forall>i<length (snd fv0).
                  snd fv1 ! i = (if i mod last (fst fv0) = k then b ! (i div last (fst fv0))
                                 else snd fv0 ! i)"
    by (auto simp: normalize_def)
  note ih = Cons.IH[OF loop, unfolded sh1 len1]
  from ih have sh: "fst fv = fst fv0" and len: "length (snd fv) = length (snd fv0)"
    and keep: "\<forall>i<length (snd fv0). i mod last (fst fv0) < Suc k \<longrightarrow> snd fv ! i = snd fv1 ! i"
    and later: "\<forall>j<length rest. \<exists>ms v a b.
            M (rest ! j) = Some ms \<and> item names vals (rest ! j) = Inr v \<and> asarray v = Inr a
            \<and> bcast (butlast (fst fv0)) (strip_ones (length (butlast (fst fv0))) (fst a))
                 (map (\<lambda>x. (x - fst ms) / snd ms) (snd a)) = Some b
            \<and> (\<forall>i<length (snd fv0). i mod last (fst fv0) = Suc k + j
                  \<longrightarrow> snd fv ! i = b ! (i div last (fst fv0)))"
    by blast+
  have before: "\<forall>i<length (snd fv0). i mod last (fst fv0) < k \<longrightarrow> snd fv ! i = snd fv0 ! i"
    using keep ent1 by auto
  have item: "item names vals feat = Inr ?v" using mem by (simp add: item_def)
  have here: "\<forall>i<length (snd fv0). i mod last (fst fv0) = k
                  \<longrightarrow> snd fv ! i = b ! (i div last (fst fv0))"
    using keep ent1 by auto
  have cols: "\<forall>j<length (feat # rest). \<exists>ms v a b.
            M ((feat # rest) ! j) = Some ms \<and> item names vals ((feat # rest) ! j) = Inr v
            \<and> asarray v = Inr a
            \<and> bcast (butlast (fst fv0)) (strip_ones (length (butlast (fst fv0))) (fst a))
                 (map (\<lambda>x. (x - fst ms) / snd ms) (snd a)) = Some b
            \<and> (\<forall>i<length (snd fv0). i mod last (fst fv0) = k + j
                  \<longrightarrow> snd fv ! i = b ! (i div last (fst fv0)))"
  proof (intro allI impI)
    fix j assume j: "j < length (feat # rest)"
    show "\<exists>ms v a b.
            M ((feat # rest) ! j) = Some ms \<and> item names vals ((feat # rest) ! j) = Inr v
            \<and> asarray v = Inr a
            \<and> bcast (butlast (fst fv0)) (strip_ones (length (butlast (fst fv0))) (fst a))
                 (map (\<lambda>x. (x - fst ms) / snd ms) (snd a)) = Some b
            \<and> (\<forall>i<length (snd fv0). i mod last (fst fv0) = k + j
                  \<longrightarrow> snd fv ! i = b ! (i div last (fst fv0)))"
    proof (cases j)
      case 0
      have "M feat = Some ms \<and> item names vals feat = Inr ?v \<and> asarray ?v = Inr a
            \<and> bcast (butlast (fst fv0)) (strip_ones (length (butlast (fst fv0))) (fst a))
                 (map (\<lambda>x. (x - fst ms) / snd ms) (snd a)) = Some b
            \<and> (\<forall>i<length (snd fv0). i mod last (fst fv0) = k + 0
                  \<longrightarrow> snd fv ! i = b ! (i div last (fst fv0)))"
        using ms item a b here by simp
      then show ?thesis unfolding 0 nth_Cons_0 by blast
    next
      case (Suc j')
      with j have "j' < length rest" by simp
      with later Suc show ?thesis by simp
    qed
  qed
  from sh len before cols show ?case by blast
qed

lemma evaluate_reaches_hook:
  assumes "evaluate C s (PyDict kvs) = (s', r)"
    and "hookCalls s' = hookCalls s @ [EvaluateCall fv]"
    and "features s = Some feats"
  shows "\<exists>n k. evaluateLoop (muAndSigmaFeatures s) (isDynamic s) (map fst kvs) (map snd kvs) feats 0
                  (if dynamicFeatures s then zeros [n, k, length feats]
                   else zeros [n, length feats])
              = Inr fv"
proof -
  from assms obtain k v0 n where
    "evaluateLoop (muAndSigmaFeatures s) (isDynamic s) (map fst kvs) (map snd kvs) feats 0
       (if dynamicFeatures s then zeros [n, k, length feats] else zeros [n, length feats])
     = Inr fv"
    by (auto simp: evaluate_def Let_def split: sum.splits prod.splits split del: if_split)
  then show ?thesis by blast
qed

lemma evaluate_columns:
  assumes "evaluate C s (PyDict kvs) = (s', r)"
    and "hookCalls s' = hookCalls s @ [EvaluateCall fv]"
    and "features s = Some feats" and "cnt < length feats"
  shows "\<exists>ms v a b.
            muAndSigmaFeatures s (feats ! cnt) = Some ms
            \<and> item (map fst kvs) (map snd kvs) (feats ! cnt) = Inr v \<and> asarray v = Inr a
            \<and> bcast (butlast (fst fv)) (strip_ones (length (butlast (fst fv))) (fst a))
                 (map (\<lambda>x. (x - fst ms) / snd ms) (snd a)) = Some b
            \<and> (\<forall>i<length (snd fv). i mod length feats = cnt
                  \<longrightarrow> snd fv ! i = b ! (i div length feats))"
proof -
  from evaluate_reaches_hook[OF assms(1-3)] obtain n k where
    e: "evaluateLoop (muAndSigmaFeatures s) (isDynamic s) (map fst kvs) (map snd kvs) feats 0
          (if dynamicFeatures s then zeros [n, k, length feats] else zeros [n, length feats])
        = Inr fv" by blast
  let ?fv0 = "if dynamicFeatures s then zeros [n, k, length feats] else zeros [n, length feats]"
  have l: "last (fst ?fv0) = length feats" by (simp add: zeros_def)
  from evaluateLoop_entries[OF e] have
    sh: "fst fv = fst ?fv0" and len: "length (snd fv) = length (snd ?fv0)"
    and cols: "\<forall>j<length feats. \<exists>ms v a b.
            muAndSigmaFeatures s (feats ! j) = Some ms
            \<and> item (map fst kvs) (map snd kvs) (feats ! j) = Inr v \<and> asarray v = Inr a
            \<and> bcast (butlast (fst ?fv0)) (strip_ones (length (butlast (fst ?fv0))) (fst a))
                 (map (\<lambda>x. (x - fst ms) / snd ms) (snd a)) = Some b
            \<and> (\<forall>i<length (snd ?fv0). i mod last (fst ?fv0) = 0 + j
                  \<longrightarrow> snd fv ! i = b ! (i div last (fst ?fv0)))"
    by blast+
  have l': "last (fst fv) = length feats" using sh l by simp
  from cols assms(4) show ?thesis unfolding sh[symmetric] len[symmetric] by (simp add: l')
qed

lemma localNormalizeData_fitted:
  assumes "localNormalizeData C s names vals feat = (s', Inr u)"
  shows "fitted C names vals s' feat"
    and "fitted C names vals s g \<Longrightarrow> fitted C names vals s' g"
  using assms
  by (auto simp: localNormalizeData_def fitted_def raised_def split: sum.splits)

lemma trainLoop_keeps_fitted:
  "trainLoop C names vals feats cnt s fv = (s', Inr fv') \<Longrightarrow>
   fitted C names vals s g \<Longrightarrow> fitted C names vals s' g"
proof (induction feats arbitrary: cnt s fv)
  case Nil
  then show ?case by simp
next
  case (Cons feat rest)
  obtain s1 r1 where n: "localNormalizeData C s names vals feat = (s1, r1)"
    by (cases "localNormalizeData C s names vals feat") auto
  from Cons.prems(1) n obtain u cnt' fv1 where
    ok: "r1 = Inr u" and rest: "trainLoop C names vals rest cnt' s1 fv1 = (s', Inr fv')"
    by (auto simp: Let_def split: if_splits sum.splits option.splits)
  from localNormalizeData_fitted(2)[OF n[unfolded ok] Cons.prems(2)]
  show ?case using Cons.IH[OF rest] by blast
qed

lemma trainLoop_fits:
  "trainLoop C names vals feats cnt s fv = (s', Inr fv') \<Longrightarrow>
   f \<in> set feats \<Longrightarrow> fitted C names vals s' f"
proof (induction feats arbitrary: cnt s fv)
  case Nil
  then show ?case by simp
next
  case (Cons feat rest)
  obtain s1 r1 where n: "localNormalizeData C s names vals feat = (s1, r1)"
    by (cases "localNormalizeData C s names vals feat") auto
  from Cons.prems(1) n obtain u cnt' fv1 where
    ok: "r1 = Inr u" and rest: "trainLoop C names vals rest cnt' s1 fv1 = (s', Inr fv')"
    by (auto simp: Let_def split: if_splits sum.splits option.splits)
  show ?case
  proof (cases "f = feat")
    case True
    from localNormalizeData_fitted(1)[OF n[unfolded ok]] True
    show ?thesis using trainLoop_keeps_fitted[OF rest] by blast
  next
    case False
    with Cons.prems(2) have "f \<in> set rest" by simp
    from Cons.IH[OF rest this] show ?thesis .
  qed
qed

lemma train_fits:
  assumes "train C s0 (PyDict kvs) = (s, Inr u)" and "features s0 = Some feats"
    and "f \<in> set feats"
  shows "fitted C (map fst kvs) (map snd kvs) s f"
proof -
  let ?names = "map fst kvs" and ?vals = "map snd kvs"
  from assms(1,2) obtain fv0 s1 fv1 s2 fv2 tv r b where
    loop: "trainLoop C ?names ?vals feats 0 s0 fv0 = (s1, Inr fv1)"
    and sel: "featureSelection C s1 fv1 tv = (s2, Inr fv2)"
    and bt: "backendTrain C (backend s2) fv2 tv = (r, b)"
    and s: "s = s2\<lparr> backend := b, hookCalls := hookCalls s2 @ [TrainCall fv2 tv], amITrained := True \<rparr>"
    by (auto simp: train_def Let_def split: option.splits sum.splits prod.splits)
  from trainLoop_fits[OF loop assms(3)] have "fitted C ?names ?vals s1 f" .
  moreover have "muAndSigmaFeatures s = muAndSigmaFeatures s1"
    using featureSelection_frame[OF sel] s by simp
  ultimately show ?thesis by (simp add: fitted_def)
qed

text \<open>
  Claim C5. However many \<^verbatim>\<open>evaluate\<close> calls follow, whether they return or
  raise, \<^verbatim>\<open>muAndSigmaFeatures\<close> stays what it was; after a \<^verbatim>\<open>train\<close> that
  returned, it holds for every declared feature the factors
  \<^verbatim>\<open>normalizationFactors\<close> computed from that feature's training values.
  And a further \<^verbatim>\<open>evaluate\<close> that reaches \<^verbatim>\<open>__evaluateLocal__\<close> hands it a
  matrix that holds, at the position of each declared feature, that
  feature's values minus the stored center, divided by the stored scale.
\<close>

theorem evaluate_keeps_normalization:
  "muAndSigmaFeatures (fst (evaluateMany C s edicts)) = muAndSigmaFeatures s
   \<and> (train C s0 (PyDict kvs) = (s, Inr ()) \<and> features s0 = Some feats \<and> f \<in> set feats
        \<longrightarrow> (\<exists>v ms. item (map fst kvs) (map snd kvs) f = Inr v
                    \<and> normalizationFactors C v = Inr ms
                    \<and> muAndSigmaFeatures (fst (evaluateMany C s edicts)) f = Some ms))
   \<and> (evaluate C (fst (evaluateMany C s edicts)) (PyDict items) = (s', r)
        \<and> hookCalls s' = hookCalls (fst (evaluateMany C s edicts)) @ [EvaluateCall fv]
        \<and> features s = Some fs \<and> cnt < length fs
        \<longrightarrow> (\<exists>ms v a b.
               muAndSigmaFeatures s (fs ! cnt) = Some ms
               \<and> item (map fst items) (map snd items) (fs ! cnt) = Inr v \<and> asarray v = Inr a
               \<and> bcast (butlast (fst fv)) (strip_ones (length (butlast (fst fv))) (fst a))
                    (map (\<lambda>x. (x - fst ms) / snd ms) (snd a)) = Some b
               \<and> (\<forall>i<length (snd fv). i mod length fs = cnt
                     \<longrightarrow> snd fv ! i = b ! (i div length fs))))"
proof (intro conjI impI)
  show "muAndSigmaFeatures (fst (evaluateMany C s edicts)) = muAndSigmaFeatures s"
    by (simp add: evaluateMany_keeps)
next
  assume "train C s0 (PyDict kvs) = (s, Inr ()) \<and> features s0 = Some feats \<and> f \<in> set feats"
  then show "\<exists>v ms. item (map fst kvs) (map snd kvs) f = Inr v
                    \<and> normalizationFactors C v = Inr ms
                    \<and> muAndSigmaFeatures (fst (evaluateMany C s edicts)) f = Some ms"
    using train_fits[of C s0 kvs s "()" feats f]
    by (auto simp: evaluateMany_keeps fitted_def)
next
  let ?after = "fst (evaluateMany C s edicts)"
  assume a: "evaluate C ?after (PyDict items) = (s', r)
        \<and> hookCalls s' = hookCalls ?after @ [EvaluateCall fv]
        \<and> features s = Some fs \<and> cnt < length fs"
  have k: "muAndSigmaFeatures ?after = muAndSigmaFeatures s" "features ?after = features s"
    by (simp_all add: evaluateMany_keeps)
  from a k have "features ?after = Some fs" by simp
  from evaluate_columns[OF _ _ this, of C items s' r fv cnt] a
  show "\<exists>ms v a b.
               muAndSigmaFeatures s (fs ! cnt) = Some ms
               \<and> item (map fst items) (map snd items) (fs ! cnt) = Inr v \<and> asarray v = Inr a
               \<and> bcast (butlast (fst fv)) (strip_ones (length (butlast (fst fv))) (fst a))
                    (map (\<lambda>x. (x - fst ms) / snd ms) (snd a)) = Some b
               \<and> (\<forall>i<length (snd fv). i mod length fs = cnt
                     \<longrightarrow> snd fv ! i = b ! (i div length fs))"
    unfolding k(1) by blast
qed

lemma sampleTrained_state:
  "sampleTrained = (sampleInstance False)\<lparr> muAndSigmaFeatures := [''x'' \<mapsto> (1, 2)],
       backend := 1, hookCalls := [TrainCall ([2, 1], [- (1 / 2), 0]) ([2, 1], [0, 2])],
       amITrained := True \<rparr>"
  by (simp add: sampleTrained_def run_defs upt_rec)

theorem evaluate_keeps_normalization_witness:
  "train sampleBackend (sampleInstance False)
       (PyDict [(''x'', NdArray [2] [0, 1]), (''y'', NdArray [2] [0, 2])]) = (sampleTrained, Inr ())
   \<and> muAndSigmaFeatures
        (fst (evaluateMany sampleBackend sampleTrained [PyDict [(''x'', NdArray [1] [4])], PyNone]))
        ''x'' = Some (1, 2)
   \<and> hookCalls (fst (evaluate sampleBackend
         (fst (evaluateMany sampleBackend sampleTrained [PyDict [(''x'', NdArray [1] [4])], PyNone]))
         (PyDict [(''x'', NdArray [2] [4, 6])])))
      = hookCalls (fst (evaluateMany sampleBackend sampleTrained
                          [PyDict [(''x'', NdArray [1] [4])], PyNone]))
        @ [EvaluateCall ([2, 1], [3 / 2, 5 / 2])]
   \<and> (\<exists>ms v a b.
         muAndSigmaFeatures sampleTrained ([''x''] ! 0) = Some ms
         \<and> item (map fst [(''x'', NdArray [2] [4, 6])]) (map snd [(''x'', NdArray [2] [4, 6])])
              ([''x''] ! 0) = Inr v
         \<and> asarray v = Inr a
         \<and> bcast (butlast (fst ([2 :: nat, 1], [3 / 2, 5 / 2 :: real])))
              (strip_ones (length (butlast (fst ([2 :: nat, 1], [3 / 2, 5 / 2 :: real])))) (fst a))
              (map (\<lambda>x. (x - fst ms) / snd ms) (snd a)) = Some b
         \<and> (\<forall>i<length (snd ([2 :: nat, 1], [3 / 2, 5 / 2 :: real])). i mod length [''x''] = 0
               \<longrightarrow> snd ([2 :: nat, 1], [3 / 2, 5 / 2 :: real]) ! i = b ! (i div length [''x''])))"
proof -
  let ?ini = "sampleInstance False"
  let ?items = "[(''x'', NdArray [2] [0, 1]), (''y'', NdArray [2] [0, 2])]"
  let ?calls = "[PyDict [(''x'', NdArray [1] [4])], PyNone]"
  let ?after = "fst (evaluateMany sampleBackend sampleTrained ?calls)"
  let ?q = "[(''x'', NdArray [2] [4, 6])]"
  let ?fv = "([2 :: nat, 1], [3 / 2, 5 / 2 :: real])"
  have r: "snd (train sampleBackend ?ini (PyDict ?items)) = Inr ()"
    by (simp add: run_defs upt_rec)
  then have h: "train sampleBackend ?ini (PyDict ?items) = (sampleTrained, Inr ())"
    by (simp add: prod_eq_iff sampleTrained_def)
  have f: "features ?ini = Some [''x'']" "''x'' \<in> set [''x'']"
    by (simp_all add: sampleInstance_def)
  have after: "?after = sampleTrained\<lparr> hookCalls :=
        [TrainCall ([2, 1], [- (1 / 2), 0]) ([2, 1], [0, 2]), EvaluateCall ([1, 1], [3 / 2])] \<rparr>"
    by (simp add: sampleTrained_state run_defs upt_rec)
  have e: "evaluate sampleBackend ?after (PyDict ?q)
            = (fst (evaluate sampleBackend ?after (PyDict ?q)),
               snd (evaluate sampleBackend ?after (PyDict ?q)))"
    by simp
  have c: "hookCalls (fst (evaluate sampleBackend ?after (PyDict ?q)))
            = hookCalls ?after @ [EvaluateCall ?fv]"
    unfolding after by (simp add: sampleTrained_state run_defs upt_rec)
  have g: "features sampleTrained = Some [''x'']" "(0::nat) < length [''x'']"
    by (simp_all add: sampleTrained_state sampleInstance_def)
  note t = evaluate_keeps_normalization[of sampleBackend sampleTrained ?calls ?ini ?items
      "[''x'']" "''x''" ?q "fst (evaluate sampleBackend ?after (PyDict ?q))"
      "snd (evaluate sampleBackend ?after (PyDict ?q))" ?fv "[''x'']" 0]
  from t h f obtain v ms where n: "normalizationFactors sampleBackend v = Inr ms"
    and m: "muAndSigmaFeatures ?after ''x'' = Some ms"
    by blast
  from n have "ms = (1, 2)" by (simp add: sampleBackend_def)
  with m have m': "muAndSigmaFeatures ?after ''x'' = Some (1, 2)" by simp
  from t e c g have x: "\<exists>ms v a b.
         muAndSigmaFeatures sampleTrained ([''x''] ! 0) = Some ms
         \<and> item (map fst ?q) (map snd ?q) ([''x''] ! 0) = Inr v
         \<and> asarray v = Inr a
         \<and> bcast (butlast (fst ?fv)) (strip_ones (length (butlast (fst ?fv))) (fst a))
              (map (\<lambda>x. (x - fst ms) / snd ms) (snd a)) = Some b
         \<and> (\<forall>i<length (snd ?fv). i mod length [''x''] = 0
               \<longrightarrow> snd ?fv ! i = b ! (i div length [''x'']))"
    by blast
  from h m' c x show ?thesis by blast
qed

section \<open>The order of the keys of the training set\<close>

lemma dict_value:
  "x \<in> set (map fst kvs) \<Longrightarrow> map snd kvs ! index (map fst kvs) x = the (map_of kvs x)"
  by (induction kvs) (auto simp: index_def)

lemma same_items_same_lookup:
  assumes "distinct (map fst kvs)" and "distinct (map fst kvs')" and "set kvs = set kvs'"
  shows "set (map fst kvs) = set (map fst kvs')"
    and "\<forall>x\<in>set (map fst kvs).
           map snd kvs ! index (map fst kvs) x = map snd kvs' ! index (map fst kvs') x"
proof -
  show n: "set (map fst kvs) = set (map fst kvs')" using assms(3) by simp
  have "map_of kvs = map_of kvs'" using assms by (simp add: map_of_inject_set)
  then show "\<forall>x\<in>set (map fst kvs).
           map snd kvs ! index (map fst kvs) x = map snd kvs' ! index (map fst kvs') x"
    using n by (metis dict_value)
qed

lemma item_cong:
  assumes "set names = set names'"
    and "\<forall>x\<in>set names. vals ! index names x = vals' ! index names' x"
  shows "item names vals x = item names' vals' x"
  using assms by (simp add: item_def)

lemma targetLoop_cong:
  assumes "set names = set names'"
    and "\<forall>x\<in>set names. vals ! index names x = vals' ! index names' x"
  shows "targetLoop names vals tgts = targetLoop names' vals' tgts"
proof (induction tgts)
  case Nil
  show ?case by simp
next
  case (Cons tgt rest)
  show ?case
  proof (cases "tgt \<in> set names")
    case False
    with assms(1) show ?thesis by simp
  next
    case True
    with assms have "vals ! index names tgt = vals' ! index names' tgt"
      and "tgt \<in> set names'" by auto
    with True Cons.IH show ?thesis by (simp split: sum.splits)
  qed
qed

lemma featLenLoop_cong:
  assumes "set names = set names'"
    and "\<forall>x\<in>set names. vals ! index names x = vals' ! index names' x"
  shows "featLenLoop names vals feats n = featLenLoop names' vals' feats n"
proof (induction feats arbitrary: n)
  case Nil
  show ?case by simp
next
  case (Cons feat rest)
  have "item names vals feat = item names' vals' feat" using assms by (rule item_cong)
  then show ?case using Cons.IH by (simp split: sum.splits)
qed

lemma localNormalizeData_cong:
  assumes "set names = set names'"
    and "\<forall>x\<in>set names. vals ! index names x = vals' ! index names' x"
  shows "localNormalizeData C s names vals feat = localNormalizeData C s names' vals' feat"
  using item_cong[OF assms, of feat] by (simp add: localNormalizeData_def)

lemma trainLoop_cong:
  assumes "set names = set names'"
    and "\<forall>x\<in>set names. vals ! index names x = vals' ! index names' x"
  shows "trainLoop C names vals feats cnt s fv = trainLoop C names' vals' feats cnt s fv"
proof (induction feats arbitrary: cnt s fv)
  case Nil
  show ?case by simp
next
  case (Cons feat rest)
  show ?case
  proof (cases "feat \<in> set names")
    case False
    with assms(1) show ?thesis by simp
  next
    case True
    with assms have v: "vals ! index names feat = vals' ! index names' feat"
      and m: "feat \<in> set names'" by auto
    have n: "localNormalizeData C s names vals feat = localNormalizeData C s names' vals' feat"
      using assms by (rule localNormalizeData_cong)
    show ?thesis
      using True m v n Cons.IH
      by (simp add: Let_def split: sum.splits prod.splits option.splits)
  qed
qed

text \<open>
  Claim C7. Two training dictionaries with the same items, enumerated in
  different orders, give the same call of \<^verbatim>\<open>train\<close>: the same outcome and the
  same instance afterwards, whose record of hook calls holds the feature
  matrix and the stacked target matrix passed to \<^verbatim>\<open>_train\<close>. The keys of a
  dictionary are distinct.
\<close>

theorem train_key_order:
  assumes "distinct (map fst kvs)" and "distinct (map fst kvs')" and "set kvs = set kvs'"
  shows "train C s (PyDict kvs) = train C s (PyDict kvs')"
proof -
  note l = same_items_same_lookup[OF assms]
  have t: "\<And>tgts. targetLoop (map fst kvs) (map snd kvs) tgts
                  = targetLoop (map fst kvs') (map snd kvs') tgts"
    using l by (rule targetLoop_cong)
  have f: "\<And>feats n. featLenLoop (map fst kvs) (map snd kvs) feats n
                  = featLenLoop (map fst kvs') (map snd kvs') feats n"
    using l by (rule featLenLoop_cong)
  have g: "\<And>feats cnt s fv. trainLoop C (map fst kvs) (map snd kvs) feats cnt s fv
                  = trainLoop C (map fst kvs') (map snd kvs') feats cnt s fv"
    using l by (rule trainLoop_cong)
  show ?thesis
    unfolding train_def by (simp only: pyval.case Let_def t f g)
qed

theorem train_key_order_witness:
  "train sampleBackend (sampleInstance False)
     (PyDict [(''x'', NdArray [2] [0, 1]), (''y'', NdArray [2] [0, 2])])
   = train sampleBackend (sampleInstance False)
       (PyDict [(''y'', NdArray [2] [0, 2]), (''x'', NdArray [2] [0, 1])])
   \<and> hookCalls (fst (train sampleBackend (sampleInstance False)
       (PyDict [(''y'', NdArray [2] [0, 2]), (''x'', NdArray [2] [0, 1])])))
     = [TrainCall ([2, 1], [- (1 / 2), 0]) ([2, 1], [0, 2])]"
proof -
  let ?a = "[(''x'', NdArray [2] [0, 1]), (''y'', NdArray [2] [0, 2])]"
  let ?b = "[(''y'', NdArray [2] [0, 2]), (''x'', NdArray [2] [0, 1])]"
  have d: "distinct (map fst ?a)" "distinct (map fst ?b)" by simp_all
  have e: "set ?a = set ?b" by auto
  have c: "hookCalls (fst (train sampleBackend (sampleInstance False) (PyDict ?b)))
     = [TrainCall ([2, 1], [- (1 / 2), 0]) ([2, 1], [0, 2])]"
    by (simp add: run_defs upt_rec)
  from train_key_order[OF d e, of sampleBackend "sampleInstance False"] c
  show ?thesis by (rule conjI)
qed

section \<open>confidence with dynamic features\<close>

lemma size_attr_cases:
  "(\<exists>n. size_attr v = Inr n) \<or> size_attr v = Inl (AttributeError, ''size'')"
  by (cases v) auto

lemma confidenceCheckLoop_ok:
  "\<forall>kv\<in>set kvs. fst (checkArrayConsistency (snd kv) dyn) \<Longrightarrow> confidenceCheckLoop dyn kvs = Inr ()"
  by (induction kvs) (auto simp: Let_def)

text \<open>
  Claim C10, as the code has it. With \<^verbatim>\<open>dynamicFeatures\<close> set,
  \<^verbatim>\<open>confidence\<close> always raises and leaves the instance as it was, so the hook
  \<^verbatim>\<open>__confidenceLocal__\<close> is never reached. For a dictionary that is not
  empty and whose values all pass the validator the exception is an
  \<^verbatim>\<open>AttributeError\<close>; it is the one for \<^verbatim>\<open>featureShape\<close> when the first value
  is a numpy array.
\<close>

theorem confidence_dynamic_features:
  assumes "dynamicFeatures s"
  shows "(\<exists>e. confidence C s edict = (s, Inl e))
       \<and> (edict = PyDict kvs \<and> kvs \<noteq> []
            \<and> (\<forall>kv\<in>set kvs. fst (checkArrayConsistency (snd kv) (isDynamic s)))
          \<longrightarrow> (\<exists>m. confidence C s edict = (s, Inl (AttributeError, m))))
       \<and> (edict = PyDict ((k, NdArray sh d) # rest)
            \<and> (\<forall>kv\<in>set ((k, NdArray sh d) # rest). fst (checkArrayConsistency (snd kv) (isDynamic s)))
          \<longrightarrow> confidence C s edict = (s, Inl (AttributeError, ''featureShape'')))"
proof (intro conjI impI)
  show "\<exists>e. confidence C s edict = (s, Inl e)"
    using assms
    by (cases edict) (auto simp: confidence_def Let_def split: sum.splits)
next
  assume a: "edict = PyDict kvs \<and> kvs \<noteq> []
            \<and> (\<forall>kv\<in>set kvs. fst (checkArrayConsistency (snd kv) (isDynamic s)))"
  then obtain kv rest where kvs: "kvs = kv # rest" by (cases kvs) auto
  from a have ok: "confidenceCheckLoop (isDynamic s) kvs = Inr ()"
    by (simp add: confidenceCheckLoop_ok)
  from size_attr_cases[of "snd kv"] show "\<exists>m. confidence C s edict = (s, Inl (AttributeError, m))"
    using a assms ok kvs by (auto simp: confidence_def Let_def first_value_def)
next
  assume a: "edict = PyDict ((k, NdArray sh d) # rest)
            \<and> (\<forall>kv\<in>set ((k, NdArray sh d) # rest). fst (checkArrayConsistency (snd kv) (isDynamic s)))"
  then have ok: "confidenceCheckLoop (isDynamic s) ((k, NdArray sh d) # rest) = Inr ()"
    using confidenceCheckLoop_ok by blast
  show "confidence C s edict = (s, Inl (AttributeError, ''featureShape''))"
    using a assms ok by (simp add: confidence_def Let_def first_value_def)
qed

theorem confidence_dynamic_features_witness:
  "dynamicFeatures (sampleInstance True)
   \<and> confidence sampleBackend (sampleInstance True) (PyDict [(''x'', NdArray [1] [4])])
       = (sampleInstance True, Inl (AttributeError, ''featureShape''))"
proof -
  let ?s = "sampleInstance True"
  have h: "dynamicFeatures ?s" by (simp add: sampleInstance_def)
  have v: "PyDict [(''x'', NdArray [1] [4])] = PyDict ((''x'', NdArray [1] [4]) # [])
     \<and> (\<forall>kv\<in>set ((''x'', NdArray [1] [4]) # []).
            fst (checkArrayConsistency (snd kv) (isDynamic ?s)))"
    by (simp add: checkArrayConsistency_unfold)
  from confidence_dynamic_features[OF h, of sampleBackend "PyDict [(''x'', NdArray [1] [4])]"
       _ "''x''" "[1]" "[4]" "[]"] v
  have "confidence sampleBackend ?s (PyDict [(''x'', NdArray [1] [4])])
       = (?s, Inl (AttributeError, ''featureShape''))" by blast
  with h show ?thesis by simp
qed

text \<open>
  Claim C10 as stated promises an attribute error for every call. The guards
  that come first raise other exceptions: \<^verbatim>\<open>IOError\<close> for an input that is
  not a dictionary, \<^verbatim>\<open>IndexError\<close> for an empty one.
\<close>

theorem confidence_dynamic_features_counterexample:
  "dynamicFeatures (sampleInstance True)
   \<and> snd (confidence sampleBackend (sampleInstance True) (PyList []))
       = Inl (IOError, ''method '' @ [CHR 0x22] @ ''confidence'' @ [CHR 0x22]
                @ ''. The inquiring set needs to be provided through a dictionary. Type of the in-object is <class ''
                @ [CHR 0x27] @ ''list'' @ [CHR 0x27] @ ''>'')
   \<and> snd (confidence sampleBackend (sampleInstance True) (PyDict []))
       = Inl (IndexError, ''list index out of range'')"
  by (simp add: run_defs)

section \<open>evaluate and the trained flag\<close>

text \<open>
  Claim C4, as the code has it. \<^verbatim>\<open>evaluate\<close> never reads \<^verbatim>\<open>amITrained\<close>: with
  the flag set to any value it builds the same matrix, calls
  \<^verbatim>\<open>__evaluateLocal__\<close> the same way and has the same outcome.
\<close>

theorem evaluate_ignores_amITrained:
  "evaluate C (s\<lparr> amITrained := b \<rparr>) edict
     = (case evaluate C s edict of (s', r) \<Rightarrow> (s'\<lparr> amITrained := b \<rparr>, r))"
  by (cases edict)
     (auto simp: evaluate_def isDynamic_def Let_def split: sum.splits option.splits prod.splits)

text \<open>
  Claim C4 as stated says that an untrained instance raises. After
  \<^verbatim>\<open>train\<close> and \<^verbatim>\<open>reset\<close> the flag is false, and \<^verbatim>\<open>evaluate\<close> returns
  what the backend returns, here zeros.
\<close>

theorem evaluate_untrained_counterexample:
  "amITrained (fst (reset sampleBackend (fst (train sampleBackend (sampleInstance False)
      (PyDict [(''x'', NdArray [2] [0, 1]), (''y'', NdArray [2] [0, 2])]))))) = False
   \<and> snd (evaluate sampleBackend
        (fst (reset sampleBackend (fst (train sampleBackend (sampleInstance False)
           (PyDict [(''x'', NdArray [2] [0, 1]), (''y'', NdArray [2] [0, 2])])))))
        (PyDict [(''x'', NdArray [1] [4])])) = Inr (NdArray [1] [0])"
  by (simp add: run_defs upt_rec)

section \<open>Dynamic features of differing lengths\<close>

text \<open>
  Claim C1 at two training sets of a dynamic instance. In the first the two
  realizations of \<open>x\<close> have lengths 3 and 2; in the second every feature has
  realizations of one length, 3 for \<open>x\<close> and 2 for \<open>z\<close>. The claim says that
  the shorter ones are padded with zeros; \<^verbatim>\<open>train\<close> raises on both, in
  \<^verbatim>\<open>np.asarray\<close> and in the assignment to the matrix sized for length 3.
\<close>

theorem train_dynamic_differing_lengths:
  "snd (train sampleBackend (sampleInstance True)
          (PyDict [(''x'', PyList [NdArray [3] [1, 2, 3], NdArray [2] [4, 5]]),
                   (''y'', NdArray [2] [0, 1])]))
     = Inl (ValueError, ''inhomogeneous shape'')
   \<and> snd (train sampleBackend ((sampleInstance True)\<lparr> features := Some [''x'', ''z''] \<rparr>)
          (PyDict [(''x'', PyList [NdArray [3] [1, 2, 3], NdArray [3] [4, 5, 6]]),
                   (''z'', PyList [NdArray [2] [1, 2], NdArray [2] [4, 5]]),
                   (''y'', NdArray [2] [0, 1])]))
     = Inl (ValueError, ''could not broadcast input array'')"
  by (simp add: run_defs upt_rec)

section \<open>The matrix of confidence\<close>

text \<open>
  Claim C2 at a trained static instance with center 1 and scale 2 stored for
  \<open>x\<close>, asked at \<open>x = 4\<close>. \<^verbatim>\<open>evaluate\<close> passes the normalised value
  \<open>(4 - 1) / 2\<close> to its hook, as \<^verbatim>\<open>train\<close> does with the training values;
  \<^verbatim>\<open>confidence\<close> passes the raw value 4.
\<close>

theorem confidence_skips_normalization:
  "hookCalls (fst (confidence sampleBackend
       (fst (train sampleBackend (sampleInstance False)
          (PyDict [(''x'', NdArray [2] [0, 1]), (''y'', NdArray [2] [0, 2])])))
       (PyDict [(''x'', NdArray [1] [4])])))
     = [TrainCall ([2, 1], [- (1 / 2), 0]) ([2, 1], [0, 2]), ConfidenceCall ([1, 1], [4])]
   \<and> hookCalls (fst (evaluate sampleBackend
       (fst (train sampleBackend (sampleInstance False)
          (PyDict [(''x'', NdArray [2] [0, 1]), (''y'', NdArray [2] [0, 2])])))
       (PyDict [(''x'', NdArray [1] [4])])))
     = [TrainCall ([2, 1], [- (1 / 2), 0]) ([2, 1], [0, 2]), EvaluateCall ([1, 1], [3 / 2])]"
  by (simp add: run_defs upt_rec)

section \<open>A feature missing from the training set\<close>

lemma stack_last_len: "stack_last tvs = Inr tv \<Longrightarrow> \<exists>n. np_len tv = Inr n"
  by (auto simp: stack_last_def np_len_def split: if_splits sum.splits list.splits)

text \<open>
  Without dynamic features, when the targets are found and stack, a first
  declared feature that the dictionary lacks is reported by name.
\<close>

lemma train_static_missing_feature:
  assumes "\<not> dynamicFeatures s" and "target s = Some tgts" and "features s = Some (f # rest)"
    and "targetLoop (map fst kvs) (map snd kvs) tgts = Inr tvs" and "stack_last tvs = Inr tv"
    and "f \<notin> set (map fst kvs)"
  shows "train C s (PyDict kvs)
           = (s, Inl (IOError, ''The feature sought '' @ f @ '' is not in the training set''))"
proof -
  from stack_last_len[OF assms(5)] obtain n where "np_len tv = Inr n" by blast
  with assms show ?thesis by (simp add: train_def)
qed

text \<open>
  Claim C6 at the training set \<open>{y: [0, 1]}\<close>, which lacks the feature \<open>x\<close>.
  The static instance raises the data error that names \<open>x\<close>. The dynamic
  instance raises the \<^verbatim>\<open>ValueError\<close> of \<^verbatim>\<open>names.index\<close> in the loop that
  sizes the time axis, before the check for a missing feature is reached.
\<close>

theorem train_missing_feature_dynamic:
  "snd (train sampleBackend (sampleInstance False) (PyDict [(''y'', NdArray [2] [0, 1])]))
     = Inl (IOError, ''The feature sought x is not in the training set'')
   \<and> snd (train sampleBackend (sampleInstance True) (PyDict [(''y'', NdArray [2] [0, 1])]))
     = Inl (ValueError, [CHR 0x27] @ ''x'' @ [CHR 0x27] @ '' is not in list'')"
  by (simp add: run_defs)

section \<open>A name that is both feature and target\<close>

text \<open>\<^verbatim>\<open>_handleInput\<close> raises when the two lists share a name.\<close>

lemma handleInput_rejects_shared_name:
  assumes "set (nodeTarget nodes) \<inter> set (nodeFeatures nodes) \<noteq> {}"
  shows "\<exists>msg. snd (handleInput s nodes) = Inl (IOError, msg)"
proof -
  from assms obtain t where "t \<in> set (nodeTarget nodes)" "t \<in> set (nodeFeatures nodes)" by blast
  then have "t \<in> set (filter (\<lambda>t. t \<in> set (nodeFeatures nodes)) (remdups (nodeTarget nodes)))"
    by simp
  then have "filter (\<lambda>t. t \<in> set (nodeFeatures nodes)) (remdups (nodeTarget nodes)) \<noteq> []"
    by (metis empty_iff empty_set)
  then show ?thesis by (simp add: handleInput_def Let_def)
qed

text \<open>
  Claim C8 at the configuration with \<open>x\<close> as the only feature and the only
  target. \<^verbatim>\<open>_handleInput\<close> raises the configuration error;
  \<^verbatim>\<open>initializeFromDict\<close> returns normally and leaves an instance whose
  features and targets share \<open>x\<close>.
\<close>

theorem initializeFromDict_accepts_shared_name:
  "snd (handleInput (init (0::nat))
          \<lparr> nodeFeatures = [''x''], nodeTarget = [''x''], nodePivotParameter = ''time'',
            nodeFeatureSelectionAlgorithm = None, nodePerformPCA = False, nodeStep = 1,
            nodeNFeaturesToSelect = None \<rparr>)
     = Inl (IOError, ''The target(s) '' @ [CHR 0x22] @ ''x'' @ [CHR 0x22]
                      @ '' is/are also among the given features!'')
   \<and> initializeFromDict (init (0::nat))
          \<lparr> dictFeatures = Some [''x''], dictTarget = Some [''x''],
            dictFeatureSelectionAlgorithm = None, dictPerformPCA = None,
            dictVerbosity = None \<rparr>
     = ((init 0)\<lparr> features := Some [''x''], target := Some [''x''] \<rparr>, Inr ())"
  by (simp add: handleInput_def initializeFromDict_def init_def Let_def)

end
